theory Spec2Isabelle
  imports Complex_Main "HOL-Library.Multiset"
begin

section \<open>Data model\<close>

text \<open>
  The tables of \<^verbatim>\<open>src/init-db.js\<close>, one record per row. A JavaScript string is a list of
  its code units, so \<open>length\<close> is the \<^verbatim>\<open>.length\<close> of the source and \<open>take n\<close> is
  \<^verbatim>\<open>.substring(0, n)\<close>. A nullable column is an \<open>option\<close>. A timestamp is the reading of the
  database clock, an integer.
\<close>

type_synonym vector = "real list"
type_synonym timestamp = int

record document =
  doc_id :: nat
  doc_title :: string
  doc_content :: "string option"
  doc_embedding :: "vector option"
  doc_created_at :: timestamp
  doc_file_path :: "string option"
  doc_source_url :: "string option"
  doc_mime_type :: "string option"

record notebook =
  nb_id :: nat
  nb_title :: string
  nb_content :: "string option"
  nb_created_at :: timestamp
  nb_updated_at :: timestamp

text \<open>
  A row of \<^verbatim>\<open>api_usage_logs\<close>, with the five columns that \<^verbatim>\<open>logApiUsage\<close> writes. The cost
  is the value held by the column \<^verbatim>\<open>cost NUMERIC(10, 6)\<close>: a decimal with six digits after
  the point.
\<close>

record usage_log =
  log_model :: string
  log_prompt_tokens :: nat
  log_completion_tokens :: nat
  log_total_tokens :: nat
  log_cost :: real

text \<open>
  The state a request runs against: the four tables, the sequence behind
  \<^verbatim>\<open>documents.id\<close>, and the requests sent so far to the two OpenAI endpoints (the text given
  to the embeddings endpoint; the system and user messages given to the chat endpoint).
\<close>

record world =
  documents :: "document list"
  documents_id_seq :: nat
  notebooks :: "notebook list"
  notebook_documents :: "(nat \<times> nat) list"
  api_usage_logs :: "usage_log list"
  embedding_requests :: "string list"
  chat_requests :: "(string \<times> string) list"

section \<open>External collaborators\<close>

text \<open>
  What the OpenAI SDK returns. A field that may be \<^verbatim>\<open>undefined\<close> is an \<open>option\<close>.
\<close>

record usage =
  prompt_tokens :: "nat option"
  completion_tokens :: "nat option"
  total_tokens :: "nat option"

record embedding_response =
  er_usage :: "usage option"
  er_data :: "vector list"

record chat_response =
  cr_usage :: "usage option"
  cr_choices :: "string option list"

record scraped =
  sc_title :: string
  sc_content :: string

text \<open>
  Everything the handlers call that is not code of the repository is a field of the
  environment: the two OpenAI endpoints (\<open>None\<close> when the call throws), the scraper's
  result for a URL (\<open>None\<close> when scraping fails), pgvector's distance operator
  \<^verbatim>\<open><=>\<close>, JavaScript's \<^verbatim>\<open>toFixed(1)\<close>, and whether the database accepts a row
  (\<open>False\<close> when the INSERT throws).

  A JavaScript number is an IEEE double; it is represented by the real number it denotes.
  \<open>fl\<close> is the rounding of the language: the double that a decimal literal denotes and the
  double that an arithmetic operation returns for its exact result. \<open>number_text\<close> is the
  decimal that \<^verbatim>\<open>String(x)\<close> prints for a number, which is what node-postgres sends for a
  numeric query parameter.
\<close>

record env =
  embeddings_create :: "string \<Rightarrow> embedding_response option"
  chat_completions_create :: "string \<Rightarrow> string \<Rightarrow> chat_response option"
  scrapeUrl :: "string \<Rightarrow> scraped option"
  cosine_distance :: "vector \<Rightarrow> vector \<Rightarrow> real"
  toFixed1 :: "real \<Rightarrow> string"
  db_accepts_document :: "document \<Rightarrow> bool"
  db_accepts_usage :: "usage_log \<Rightarrow> bool"
  fl :: "real \<Rightarrow> real"
  number_text :: "real \<Rightarrow> real"

section \<open>HTTP replies\<close>

record search_row =
  sr_id :: nat
  sr_title :: string
  sr_created_at :: timestamp
  sr_distance :: "real option"

datatype body =
    ErrorBody string
  | MessageBody string
  | DocumentCreated nat string timestamp
  | DocumentRow document
  | SearchRows "search_row list"
  | NotebookBody notebook "document list"
  | AnswerBody string
  | NoBody

type_synonym reply = "nat \<times> body"

section \<open>Usage meter and embedding client (src/services/openai.js)\<close>

definition EMBEDDING_MODEL :: string where
  "EMBEDDING_MODEL = ''text-embedding-ada-002''"

definition COMPLETION_MODEL :: string where
  "COMPLETION_MODEL = ''gpt-4o-mini''"

record model_pricing =
  price_input :: "real option"
  price_output :: "real option"

text \<open>
  Pricing per 1,000 tokens in USD. The embedding model lists no output rate. The table is
  looked up by model name; a name that a JavaScript object inherits (such as
  \<^verbatim>\<open>constructor\<close>) finds an object without rates there and costs 0 as well, like a
  name the table does not have.
\<close>

definition PRICING :: "(string \<times> model_pricing) list" where
  "PRICING =
     [(EMBEDDING_MODEL, \<lparr>price_input = Some 0.0001, price_output = None\<rparr>),
      (COMPLETION_MODEL, \<lparr>price_input = Some 0.00015, price_output = Some 0.0006\<rparr>)]"

text \<open>\<^verbatim>\<open>x || 0\<close> and the destructuring default \<^verbatim>\<open>= 0\<close>.\<close>

definition or_zero :: "'a::zero option \<Rightarrow> 'a" where
  "or_zero x = (case x of None \<Rightarrow> 0 | Some v \<Rightarrow> v)"

text \<open>The arithmetic of JavaScript numbers: the exact result, rounded to a double.\<close>

definition js_div :: "env \<Rightarrow> real \<Rightarrow> real \<Rightarrow> real" where
  "js_div env a b = fl env (a / b)"

definition js_mul :: "env \<Rightarrow> real \<Rightarrow> real \<Rightarrow> real" where
  "js_mul env a b = fl env (a * b)"

definition js_add :: "env \<Rightarrow> real \<Rightarrow> real \<Rightarrow> real" where
  "js_add env a b = fl env (a + b)"

text \<open>
  \<^verbatim>\<open>modelPricing.input || 0\<close>: the double that the rate written in the table denotes, or 0
  when the table has no such rate.
\<close>

definition rate_or_zero :: "env \<Rightarrow> real option \<Rightarrow> real" where
  "rate_or_zero env x = (case x of None \<Rightarrow> 0 | Some r \<Rightarrow> fl env r)"

text \<open>
  The cost as \<^verbatim>\<open>logApiUsage\<close> computes it, a JavaScript number. Token counts are integers
  and are exact as numbers.
\<close>

definition computed_cost :: "env \<Rightarrow> string \<Rightarrow> nat \<Rightarrow> nat \<Rightarrow> real" where
  "computed_cost env model p c =
     (case map_of PRICING model of
        None \<Rightarrow> 0
      | Some modelPricing \<Rightarrow>
          (let inputCost = js_mul env (js_div env (of_nat p) 1000)
                             (rate_or_zero env (price_input modelPricing));
               outputCost = js_mul env (js_div env (of_nat c) 1000)
                              (rate_or_zero env (price_output modelPricing))
           in js_add env inputCost outputCost))"

text \<open>
  What the column \<^verbatim>\<open>cost NUMERIC(10, 6)\<close> of \<^verbatim>\<open>src/init-db.js\<close> holds for a decimal it is
  given: the decimal rounded to six digits after the point, a half away from zero.
\<close>

definition numeric_10_6 :: "real \<Rightarrow> real" where
  "numeric_10_6 x =
     (if 0 \<le> x then of_int \<lfloor>x * 1000000 + 1 / 2\<rfloor> / 1000000
      else - (of_int \<lfloor>- x * 1000000 + 1 / 2\<rfloor> / 1000000))"

text \<open>
  The row that the INSERT of \<^verbatim>\<open>logApiUsage\<close> leaves in the table: the cost is computed as
  a number, sent as its decimal text and rounded by the column.
\<close>

definition usage_row :: "env \<Rightarrow> string \<Rightarrow> usage option \<Rightarrow> usage_log" where
  "usage_row env model usage_opt =
     (let p = (case usage_opt of None \<Rightarrow> 0 | Some u \<Rightarrow> or_zero (prompt_tokens u));
          c = (case usage_opt of None \<Rightarrow> 0 | Some u \<Rightarrow> or_zero (completion_tokens u));
          t = (case usage_opt of None \<Rightarrow> 0 | Some u \<Rightarrow> or_zero (total_tokens u));
          cost = computed_cost env model p c
      in \<lparr>log_model = model, log_prompt_tokens = p, log_completion_tokens = c,
          log_total_tokens = t, log_cost = numeric_10_6 (number_text env cost)\<rparr>)"

text \<open>
  \<^verbatim>\<open>logApiUsage\<close>: compute the row, insert it. The INSERT throws when the rounded cost does
  not fit the ten digits of the column (its absolute value reaches 10000) or when the
  database rejects the row for another reason; the error is logged and swallowed, so the
  world is then unchanged.
\<close>

definition logApiUsage :: "env \<Rightarrow> string \<Rightarrow> usage option \<Rightarrow> world \<Rightarrow> world" where
  "logApiUsage env model usage_opt w =
     (let row = usage_row env model usage_opt
      in if \<bar>log_cost row\<bar> < 10000 \<and> db_accepts_usage env row
         then w\<lparr>api_usage_logs := api_usage_logs w @ [row]\<rparr>
         else w)"

text \<open>\<^verbatim>\<open>text.replace(/\n/g, ' ')\<close>\<close>

definition replace_newlines :: "string \<Rightarrow> string" where
  "replace_newlines text = map (\<lambda>c. if c = CHR 0x0A then CHR '' '' else c) text"

text \<open>
  \<^verbatim>\<open>getEmbedding\<close>: an empty text returns null before any request is made. Otherwise the
  request is sent; when the endpoint throws, the result is null; when it answers, the usage
  (if reported) is logged and \<^verbatim>\<open>response.data[0].embedding\<close> is returned, which throws into
  the same \<^verbatim>\<open>catch\<close> when \<^verbatim>\<open>data\<close> is empty.
\<close>

definition getEmbedding :: "env \<Rightarrow> string \<Rightarrow> world \<Rightarrow> vector option \<times> world" where
  "getEmbedding env text w =
     (if text = [] then (None, w)
      else
        (let input = replace_newlines text;
             w1 = w\<lparr>embedding_requests := embedding_requests w @ [input]\<rparr>
         in case embeddings_create env input of
              None \<Rightarrow> (None, w1)
            | Some response \<Rightarrow>
                (let w2 = (case er_usage response of
                             None \<Rightarrow> w1
                           | Some u \<Rightarrow> logApiUsage env EMBEDDING_MODEL (Some u) w1)
                 in case er_data response of
                      [] \<Rightarrow> (None, w2)
                    | e # _ \<Rightarrow> (Some e, w2))))"

text \<open>
  The rates the price table lists for a model, as the decimals written there; a rate it
  does not list counts as 0.
\<close>

definition inputRate :: "string \<Rightarrow> real" where
  "inputRate model =
     (case map_of PRICING model of None \<Rightarrow> 0 | Some mp \<Rightarrow> or_zero (price_input mp))"

definition outputRate :: "string \<Rightarrow> real" where
  "outputRate model =
     (case map_of PRICING model of None \<Rightarrow> 0 | Some mp \<Rightarrow> or_zero (price_output mp))"

section \<open>Ingestion (src/routes/documents.js, texts.js, urls.js)\<close>

definition MAX_DB_STORAGE_LENGTH :: nat where
  "MAX_DB_STORAGE_LENGTH = 25000"

definition MAX_EMBEDDING_LENGTH :: nat where
  "MAX_EMBEDDING_LENGTH = 15000"

text \<open>
  \<^verbatim>\<open>!x\<close> for a value that is a string or undefined: true when it is missing or empty.
\<close>

definition falsy :: "string option \<Rightarrow> bool" where
  "falsy x = (case x of None \<Rightarrow> True | Some s \<Rightarrow> s = [])"

text \<open>\<^verbatim>\<open>strings.join(' ')\<close>\<close>

fun join_space :: "string list \<Rightarrow> string" where
  "join_space [] = []"
| "join_space [s] = s"
| "join_space (s # t # ss) = s @ '' '' @ join_space (t # ss)"

text \<open>
  The page loop of the PDF branch: each page appends its items joined by spaces and a
  newline; the loop breaks as soon as the text is longer than the storage limit.
\<close>

fun pdf_text :: "string list list \<Rightarrow> string \<Rightarrow> string" where
  "pdf_text [] text = text"
| "pdf_text (strings # pages) text =
     (let text' = text @ join_space strings @ ''\<newline>''
      in if length text' > MAX_DB_STORAGE_LENGTH then text' else pdf_text pages text')"

text \<open>
  An uploaded file as the handler sees it: its name and declared media type, the path it is
  saved under (a random name), the code of the error thrown while it is saved, read or
  parsed (if any), the text items of its pages as pdfjs reports them, and its content read
  as UTF-8.
\<close>

record upload =
  up_filename :: string
  up_mimetype :: string
  up_file_path :: string
  up_error_code :: "string option"
  up_pdf_pages :: "string list list"
  up_utf8 :: string

definition extract_full_content :: "upload \<Rightarrow> string" where
  "extract_full_content data =
     (if up_mimetype data = ''application/pdf''
      then take MAX_DB_STORAGE_LENGTH (pdf_text (up_pdf_pages data) [])
      else take MAX_DB_STORAGE_LENGTH (up_utf8 data))"

text \<open>
  \<^verbatim>\<open>INSERT INTO documents ... RETURNING\<close>: the id comes from the sequence and
  \<^verbatim>\<open>created_at\<close> from the database clock. When the database rejects the row the statement
  throws and nothing is stored.
\<close>

definition insert_document ::
  "env \<Rightarrow> timestamp \<Rightarrow> string \<Rightarrow> string \<Rightarrow> vector \<Rightarrow> string option \<Rightarrow> string option
     \<Rightarrow> string option \<Rightarrow> world \<Rightarrow> (document \<times> world) option" where
  "insert_document env now title content embedding file_path source_url mime_type w =
     (let row = \<lparr>doc_id = Suc (documents_id_seq w), doc_title = title,
                 doc_content = Some content, doc_embedding = Some embedding,
                 doc_created_at = now, doc_file_path = file_path,
                 doc_source_url = source_url, doc_mime_type = mime_type\<rparr>
      in if db_accepts_document env row
         then Some (row, w\<lparr>documents := documents w @ [row],
                             documents_id_seq := Suc (documents_id_seq w)\<rparr>)
         else None)"

text \<open>\<^verbatim>\<open>POST /documents\<close>\<close>

definition post_documents :: "env \<Rightarrow> timestamp \<Rightarrow> upload option \<Rightarrow> world \<Rightarrow> reply \<times> world" where
  "post_documents env now data_opt w =
     (case data_opt of
        None \<Rightarrow> ((400, ErrorBody ''File is required''), w)
      | Some data \<Rightarrow>
          (case up_error_code data of
             Some code \<Rightarrow>
               (if code = ''FST_PARTS_LIMIT''
                then ((413, ErrorBody ''File size exceeds the limit.''), w)
                else ((500, ErrorBody ''Internal Server Error''), w))
           | None \<Rightarrow>
               (let fullContent = extract_full_content data
                in if fullContent = []
                   then ((400, ErrorBody ''Could not extract text from the document.''), w)
                   else
                     (let truncatedForEmbedding = take MAX_EMBEDDING_LENGTH fullContent
                      in case getEmbedding env truncatedForEmbedding w of
                           (None, w1) \<Rightarrow> ((500, ErrorBody ''Failed to generate embedding''), w1)
                         | (Some embedding, w1) \<Rightarrow>
                             (case insert_document env now (up_filename data) fullContent
                                     embedding (Some (up_file_path data)) None None w1 of
                                None \<Rightarrow> ((500, ErrorBody ''Internal Server Error''), w1)
                              | Some (row, w2) \<Rightarrow>
                                  ((201, DocumentCreated (doc_id row) (doc_title row)
                                           (doc_created_at row)), w2))))))"

text \<open>\<^verbatim>\<open>POST /texts\<close>\<close>

definition post_texts ::
  "env \<Rightarrow> timestamp \<Rightarrow> string option \<Rightarrow> string option \<Rightarrow> world \<Rightarrow> reply \<times> world" where
  "post_texts env now title_opt content_opt w =
     (if falsy title_opt \<or> falsy content_opt
      then ((400, ErrorBody ''Title and content are required''), w)
      else
        (let title = the title_opt;
             content = the content_opt;
             truncatedForEmbedding = take MAX_EMBEDDING_LENGTH content
         in case getEmbedding env truncatedForEmbedding w of
              (None, w1) \<Rightarrow> ((500, ErrorBody ''Failed to generate embedding''), w1)
            | (Some embedding, w1) \<Rightarrow>
                (case insert_document env now title content embedding None None
                        (Some ''text/plain'') w1 of
                   None \<Rightarrow> ((500, ErrorBody ''Internal Server Error''), w1)
                 | Some (row, w2) \<Rightarrow> ((201, DocumentRow row), w2))))"

text \<open>\<^verbatim>\<open>POST /urls\<close>. The title stored is \<^verbatim>\<open>title || url\<close>.\<close>

definition post_urls :: "env \<Rightarrow> timestamp \<Rightarrow> string option \<Rightarrow> world \<Rightarrow> reply \<times> world" where
  "post_urls env now url_opt w =
     (if falsy url_opt
      then ((400, ErrorBody ''URL is required''), w)
      else
        (let url = the url_opt
         in case scrapeUrl env url of
              None \<Rightarrow> ((500, ErrorBody ''Failed to scrape URL''), w)
            | Some scrapedData \<Rightarrow>
                (let title = sc_title scrapedData;
                     content = sc_content scrapedData;
                     truncatedContent = take 15000 content
                 in case getEmbedding env truncatedContent w of
                      (None, w1) \<Rightarrow> ((500, ErrorBody ''Failed to generate embedding''), w1)
                    | (Some embedding, w1) \<Rightarrow>
                        (case insert_document env now (if title = [] then url else title)
                                truncatedContent embedding None (Some url)
                                (Some ''text/html'') w1 of
                           None \<Rightarrow> ((500, ErrorBody ''Internal Server Error''), w1)
                         | Some (row, w2) \<Rightarrow> ((201, DocumentRow row), w2)))))"

section \<open>Search (src/routes/documents.js)\<close>

text \<open>
  \<^verbatim>\<open>SELECT id, title, created_at, (embedding <=> $1) AS distance FROM documents
  ORDER BY distance ASC LIMIT 5\<close>. The distance of a row without embedding is NULL, and an
  ascending order puts NULLs last. Rows at the same distance keep their table order.
\<close>

definition search_rows :: "env \<Rightarrow> vector \<Rightarrow> world \<Rightarrow> search_row list" where
  "search_rows env v w =
     (let rows = map (\<lambda>d. \<lparr>sr_id = doc_id d, sr_title = doc_title d,
                            sr_created_at = doc_created_at d,
                            sr_distance = map_option (\<lambda>e. cosine_distance env e v)
                                            (doc_embedding d)\<rparr>) (documents w)
      in take 5 (sort_key (\<lambda>r. the (sr_distance r)) [r \<leftarrow> rows. sr_distance r \<noteq> None]
                 @ [r \<leftarrow> rows. sr_distance r = None]))"

text \<open>The body of a search request, with the fields the callers of the repository send.\<close>

record search_request =
  sq_query :: "string option"
  sq_limit :: "nat option"

text \<open>
  \<^verbatim>\<open>POST /documents/search\<close>. Only \<^verbatim>\<open>query\<close> is read from the request body: a
  \<^verbatim>\<open>limit\<close> sent by the caller is ignored.
\<close>

definition post_documents_search :: "env \<Rightarrow> search_request \<Rightarrow> world \<Rightarrow> reply \<times> world" where
  "post_documents_search env request_body w =
     (let query_opt = sq_query request_body
      in if falsy query_opt
         then ((400, ErrorBody ''Query is required''), w)
         else
           (case getEmbedding env (the query_opt) w of
              (None, w1) \<Rightarrow> ((500, ErrorBody ''Failed to generate embedding for query''), w1)
            | (Some embedding, w1) \<Rightarrow> ((200, SearchRows (search_rows env embedding w1)), w1)))"

section \<open>Notebooks (src/routes/notebooks.js)\<close>

text \<open>\<^verbatim>\<open>SELECT * FROM notebooks WHERE id = $1\<close>, and \<^verbatim>\<open>rows[0]\<close> of the result.\<close>

definition find_notebook :: "world \<Rightarrow> nat \<Rightarrow> notebook option" where
  "find_notebook w nid = (case [n \<leftarrow> notebooks w. nb_id n = nid] of [] \<Rightarrow> None | n # _ \<Rightarrow> Some n)"

text \<open>
  \<^verbatim>\<open>SELECT d.* FROM documents d JOIN notebook_documents nd ON d.id = nd.document_id
  WHERE nd.notebook_id = $1 ORDER BY d.created_at DESC\<close>
\<close>

definition notebook_documents_of :: "world \<Rightarrow> nat \<Rightarrow> document list" where
  "notebook_documents_of w nid =
     sort_key (\<lambda>d. - doc_created_at d)
       [d. d \<leftarrow> documents w, nd \<leftarrow> notebook_documents w, doc_id d = snd nd \<and> fst nd = nid]"

text \<open>\<^verbatim>\<open>GET /notebooks/:id\<close>\<close>

definition get_notebook :: "nat \<Rightarrow> world \<Rightarrow> reply" where
  "get_notebook nid w =
     (case find_notebook w nid of
        None \<Rightarrow> (404, ErrorBody ''Notebook not found'')
      | Some notebook \<Rightarrow> (200, NotebookBody notebook (notebook_documents_of w nid)))"

text \<open>\<^verbatim>\<open>UPDATE notebooks SET updated_at = CURRENT_TIMESTAMP WHERE id = $1\<close>\<close>

definition touch_notebook :: "timestamp \<Rightarrow> nat \<Rightarrow> world \<Rightarrow> world" where
  "touch_notebook now nid w =
     w\<lparr>notebooks := map (\<lambda>n. if nb_id n = nid then n\<lparr>nb_updated_at := now\<rparr> else n)
                        (notebooks w)\<rparr>"

text \<open>
  \<^verbatim>\<open>POST /notebooks/:notebookId/documents\<close>. \<^verbatim>\<open>!documentId\<close> holds for a missing id and
  for 0. The INSERT throws \<^verbatim>\<open>23505\<close> when the pair is already in the table (its primary
  key), and another error when the notebook or the document does not exist (its foreign
  keys); the touch is the statement after it.
\<close>

definition post_notebook_documents ::
  "timestamp \<Rightarrow> nat \<Rightarrow> nat option \<Rightarrow> world \<Rightarrow> reply \<times> world" where
  "post_notebook_documents now notebookId documentId_opt w =
     (case documentId_opt of
        None \<Rightarrow> ((400, ErrorBody ''Document ID is required''), w)
      | Some documentId \<Rightarrow>
          if documentId = 0 then ((400, ErrorBody ''Document ID is required''), w)
          else if (notebookId, documentId) \<in> set (notebook_documents w)
          then ((409, ErrorBody ''Document is already in this notebook''), w)
          else if notebookId \<notin> nb_id ` set (notebooks w) \<or> documentId \<notin> doc_id ` set (documents w)
          then ((500, ErrorBody ''Internal Server Error''), w)
          else
            (let w1 = w\<lparr>notebook_documents := notebook_documents w @ [(notebookId, documentId)]\<rparr>;
                 w2 = touch_notebook now notebookId w1
             in ((201, MessageBody ''Document added to notebook successfully''), w2)))"

text \<open>\<^verbatim>\<open>DELETE /notebooks/:notebookId/documents/:documentId\<close>\<close>

definition delete_notebook_document ::
  "timestamp \<Rightarrow> nat \<Rightarrow> nat \<Rightarrow> world \<Rightarrow> reply \<times> world" where
  "delete_notebook_document now notebookId documentId w =
     (let rowCount = length [nd \<leftarrow> notebook_documents w. nd = (notebookId, documentId)];
          w1 = w\<lparr>notebook_documents :=
                   [nd \<leftarrow> notebook_documents w. nd \<noteq> (notebookId, documentId)]\<rparr>
      in if rowCount = 0
         then ((404, ErrorBody ''Document not found in this notebook''), w1)
         else ((204, NoBody), touch_notebook now notebookId w1))"

subsection \<open>Question answering\<close>

record qa_row =
  qa_title :: string
  qa_content :: "string option"
  qa_similarity :: real

text \<open>
  \<^verbatim>\<open>SELECT d.title, d.content, 1 - (d.embedding <=> $1) as similarity FROM documents d
  JOIN notebook_documents nd ON d.id = nd.document_id
  WHERE nd.notebook_id = $2 AND d.embedding IS NOT NULL
  ORDER BY d.embedding <=> $1 LIMIT 5\<close>
\<close>

definition qa_candidates :: "world \<Rightarrow> nat \<Rightarrow> document list" where
  "qa_candidates w nid =
     [d. d \<leftarrow> documents w, nd \<leftarrow> notebook_documents w,
         doc_id d = snd nd \<and> fst nd = nid \<and> doc_embedding d \<noteq> None]"

definition qa_distance :: "env \<Rightarrow> vector \<Rightarrow> document \<Rightarrow> real" where
  "qa_distance env v d = cosine_distance env (the (doc_embedding d)) v"

definition qa_retrieved :: "env \<Rightarrow> vector \<Rightarrow> nat \<Rightarrow> world \<Rightarrow> document list" where
  "qa_retrieved env v nid w = take 5 (sort_key (qa_distance env v) (qa_candidates w nid))"

definition qa_rows :: "env \<Rightarrow> vector \<Rightarrow> nat \<Rightarrow> world \<Rightarrow> qa_row list" where
  "qa_rows env v nid w =
     map (\<lambda>d. \<lparr>qa_title = doc_title d, qa_content = doc_content d,
               qa_similarity = 1 - qa_distance env v d\<rparr>) (qa_retrieved env v nid w)"

text \<open>A template literal prints a null as the word \<^verbatim>\<open>null\<close>.\<close>

definition template_string :: "string option \<Rightarrow> string" where
  "template_string x = (case x of None \<Rightarrow> ''null'' | Some s \<Rightarrow> s)"

definition render_document :: "env \<Rightarrow> qa_row \<Rightarrow> string" where
  "render_document env doc =
     ''Document: '' @ qa_title doc @ '' (Similarity: ''
       @ toFixed1 env (qa_similarity doc * 100) @ ''%)\<newline>Content:\<newline>''
       @ template_string (qa_content doc) @ ''\<newline>\<newline>---\<newline>\<newline>''"

definition compile_context :: "env \<Rightarrow> string \<Rightarrow> qa_row list \<Rightarrow> string" where
  "compile_context env notebookNotes rows =
     foldl (\<lambda>context doc. context @ render_document env doc)
       (''Notebook Notes:\<newline>'' @ notebookNotes @ ''\<newline>\<newline>---\<newline>\<newline>'') rows"

definition answer_system_prompt :: string where
  "answer_system_prompt =
     ''You are a helpful assistant that answers questions based on the provided context. ''
     @ ''Synthesize information from all parts of the context to provide a comprehensive answer. ''
     @ ''If the answer is not found in the context, say so.''"

definition answer_user_prompt :: "string \<Rightarrow> string \<Rightarrow> string" where
  "answer_user_prompt question context =
     ''Based on the following context, please answer the question.\<newline>\<newline>---\<newline>\<newline>CONTEXT:\<newline>''
     @ context @ ''\<newline>\<newline>---\<newline>\<newline>QUESTION: '' @ question"

text \<open>
  \<^verbatim>\<open>getAnswerFromContext\<close> (src/services/openai.js): null for an empty question or context;
  otherwise the chat request is sent, the usage is logged, and the content of the first
  choice is returned (it may be null; an empty list of choices throws into the
  \<^verbatim>\<open>catch\<close>).
\<close>

definition getAnswerFromContext ::
  "env \<Rightarrow> string \<Rightarrow> string \<Rightarrow> world \<Rightarrow> string option \<times> world" where
  "getAnswerFromContext env question context w =
     (if question = [] \<or> context = [] then (None, w)
      else
        (let user = answer_user_prompt question context;
             w1 = w\<lparr>chat_requests := chat_requests w @ [(answer_system_prompt, user)]\<rparr>
         in case chat_completions_create env answer_system_prompt user of
              None \<Rightarrow> (None, w1)
            | Some response \<Rightarrow>
                (let w2 = (case cr_usage response of
                             None \<Rightarrow> w1
                           | Some u \<Rightarrow> logApiUsage env COMPLETION_MODEL (Some u) w1)
                 in case cr_choices response of
                      [] \<Rightarrow> (None, w2)
                    | c # _ \<Rightarrow> (c, w2))))"

text \<open>
  \<^verbatim>\<open>POST /notebooks/:id/query\<close>, in the order of the source: the question is checked, then
  embedded, then the notebook is fetched.
\<close>

definition post_notebook_query :: "env \<Rightarrow> nat \<Rightarrow> string option \<Rightarrow> world \<Rightarrow> reply \<times> world" where
  "post_notebook_query env nid question_opt w =
     (if falsy question_opt
      then ((400, ErrorBody ''Question is required''), w)
      else
        (let question = the question_opt
         in case getEmbedding env question w of
              (None, w1) \<Rightarrow>
                ((500, ErrorBody ''Failed to generate embedding for the question.''), w1)
            | (Some questionEmbedding, w1) \<Rightarrow>
                (case find_notebook w1 nid of
                   None \<Rightarrow> ((404, ErrorBody ''Notebook not found''), w1)
                 | Some notebook \<Rightarrow>
                     (let notebookNotes = (case nb_content notebook of None \<Rightarrow> [] | Some c \<Rightarrow> c);
                          rows = qa_rows env questionEmbedding nid w1;
                          context = compile_context env notebookNotes rows
                      in case getAnswerFromContext env question context w1 of
                           (answer, w2) \<Rightarrow>
                             if falsy answer
                             then ((500, ErrorBody ''Failed to get an answer from the AI service.''), w2)
                             else ((200, AnswerBody (the answer)), w2)))))"

section \<open>Vocabulary of the statements\<close>

text \<open>An error reply: a status of 400 or more with an \<^verbatim>\<open>{ error: ... }\<close> body.\<close>

definition is_error_reply :: "reply \<Rightarrow> bool" where
  "is_error_reply r = (case r of (status, ErrorBody msg) \<Rightarrow> 400 \<le> status | _ \<Rightarrow> False)"

text \<open>
  The tables that hold content items and notebooks (the usage ledger is not among them).
\<close>

definition content_tables :: "world \<Rightarrow> document list \<times> nat \<times> notebook list \<times> (nat \<times> nat) list" where
  "content_tables w = (documents w, documents_id_seq w, notebooks w, notebook_documents w)"

text \<open>The requests sent to the embeddings endpoint between two states.\<close>

definition new_embedding_requests :: "world \<Rightarrow> world \<Rightarrow> string list" where
  "new_embedding_requests w w' = drop (length (embedding_requests w)) (embedding_requests w')"

text \<open>
  The whole text a file yields: every page of a PDF (without the early exit of the page
  loop), or the file read as UTF-8.
\<close>

definition pdf_full_text :: "string list list \<Rightarrow> string" where
  "pdf_full_text pages = concat (map (\<lambda>strings. join_space strings @ ''\<newline>'') pages)"

definition extracted_text :: "upload \<Rightarrow> string" where
  "extracted_text data =
     (if up_mimetype data = ''application/pdf'' then pdf_full_text (up_pdf_pages data)
      else up_utf8 data)"

text \<open>
  Double precision: a rounding is within double precision when it moves a value by at most
  the unit roundoff \<open>1 / 2 ^ 53\<close> times its size, as rounding to the nearest double does in the
  range of the normal numbers. \<open>approx k e x\<close> says that \<open>x\<close> is the non-negative value
  \<open>e\<close> after at most \<open>k\<close> such roundings.
\<close>

definition unit_roundoff :: real where
  "unit_roundoff = 1 / 2 ^ 53"

definition within_double_precision :: "(real \<Rightarrow> real) \<Rightarrow> bool" where
  "within_double_precision f = (\<forall>x. \<bar>f x - x\<bar> \<le> \<bar>x\<bar> * unit_roundoff)"

definition approx :: "nat \<Rightarrow> real \<Rightarrow> real \<Rightarrow> bool" where
  "approx k e x =
     (0 \<le> e \<and> e * (1 - unit_roundoff) ^ k \<le> x \<and> x \<le> e * (1 + unit_roundoff) ^ k)"

section \<open>Example environments and stores\<close>

text \<open>
  Concrete collaborators and stores on which the theorems below are instantiated. The
  example distance compares the first components of two vectors.
\<close>

definition example_distance :: "vector \<Rightarrow> vector \<Rightarrow> real" where
  "example_distance a b = (case (a, b) of (x # _, y # _) \<Rightarrow> \<bar>x - y\<bar> | _ \<Rightarrow> 1)"

definition example_usage :: usage where
  "example_usage = \<lparr>prompt_tokens = Some 1000, completion_tokens = Some 2000,
                     total_tokens = Some 3000\<rparr>"

text \<open>
  The doubles behind the examples: the double nearest to each of the decimals 0.0001,
  0.00015, 0.0006 and 0.001, to the product of the doubles of 0.001 and 0.0001, and to the
  sum of the doubles of 0.00015 and 0.0012. Every other value met in the examples is a
  double already.
\<close>

definition double_0_0001 :: real where
  "double_0_0001 = 7378697629483821 / 73786976294838206464"

definition double_0_00015 :: real where
  "double_0_00015 = 5534023222112865 / 36893488147419103232"

definition double_0_0006 :: real where
  "double_0_0006 = 5534023222112865 / 9223372036854775808"

definition double_0_001 :: real where
  "double_0_001 = 1152921504606847 / 1152921504606846976"

definition example_fl :: "real \<Rightarrow> real" where
  "example_fl x =
     (if x = 1 / 10000 then double_0_0001
      else if x = 3 / 20000 then double_0_00015
      else if x = 3 / 5000 then double_0_0006
      else if x = 1 / 1000 then double_0_001
      else if x = double_0_001 * double_0_0001
      then 7555786372591433 / 75557863725914323419136
      else if x = double_0_00015 + 2 * double_0_0006
      then 6225776124876973 / 4611686018427387904
      else x)"

text \<open>
  The decimals that \<^verbatim>\<open>String\<close> prints for the two costs of the examples,
  \<^verbatim>\<open>1.0000000000000001e-7\<close> and \<^verbatim>\<open>0.0013499999999999999\<close>.
\<close>

definition example_number_text :: "real \<Rightarrow> real" where
  "example_number_text x =
     (if x = 7555786372591433 / 75557863725914323419136
      then 10000000000000001 / 100000000000000000000000
      else if x = 6225776124876973 / 4611686018427387904
      then 13499999999999999 / 10000000000000000000
      else x)"

definition example_env :: env where
  "example_env =
     \<lparr>embeddings_create = (\<lambda>t. Some \<lparr>er_usage = None, er_data = [[1]]\<rparr>),
      chat_completions_create = (\<lambda>s u. Some \<lparr>cr_usage = None, cr_choices = [Some ''Paris.'']\<rparr>),
      scrapeUrl = (\<lambda>u. Some \<lparr>sc_title = ''Page'', sc_content = replicate 25001 (CHR ''a'')\<rparr>),
      cosine_distance = example_distance,
      toFixed1 = (\<lambda>x. if x = 100 then ''100.0'' else if x = 50 then ''50.0'' else ''0.0''),
      db_accepts_document = (\<lambda>d. True),
      db_accepts_usage = (\<lambda>r. True),
      fl = example_fl,
      number_text = example_number_text\<rparr>"

definition empty_world :: world where
  "empty_world =
     \<lparr>documents = [], documents_id_seq = 0, notebooks = [], notebook_documents = [],
      api_usage_logs = [], embedding_requests = [], chat_requests = []\<rparr>"

text \<open>An environment whose embeddings endpoint always throws.\<close>

definition failing_env :: env where
  "failing_env = example_env\<lparr>embeddings_create := (\<lambda>t. None)\<rparr>"

text \<open>An environment whose scraper finds no text, and fails on one URL.\<close>

definition empty_page_env :: env where
  "empty_page_env = example_env\<lparr>scrapeUrl := (\<lambda>u. if u = ''http://down'' then None
                                   else Some \<lparr>sc_title = ''image.png'', sc_content = []\<rparr>)\<rparr>"

text \<open>A plain-text upload of 25001 characters.\<close>

definition example_upload :: upload where
  "example_upload =
     \<lparr>up_filename = ''notes.txt'', up_mimetype = ''text/plain'',
      up_file_path = ''uploads/0a.txt'', up_error_code = None, up_pdf_pages = [],
      up_utf8 = replicate 25001 (CHR ''a'')\<rparr>"

text \<open>A PDF of one page that carries no text item, as a scanned page does.\<close>

definition blank_pdf :: upload where
  "blank_pdf =
     \<lparr>up_filename = ''scan.pdf'', up_mimetype = ''application/pdf'',
      up_file_path = ''uploads/1b.pdf'', up_error_code = None, up_pdf_pages = [Nil],
      up_utf8 = []\<rparr>"

text \<open>
  A store with three documents, the third without embedding, and two notebooks; the first
  notebook holds all three documents, the second none.
\<close>

definition shelf_world :: world where
  "shelf_world =
     \<lparr>documents =
        [\<lparr>doc_id = 1, doc_title = ''France'', doc_content = Some ''Paris is the capital of France.'',
          doc_embedding = Some [1], doc_created_at = 10, doc_file_path = None,
          doc_source_url = None, doc_mime_type = Some ''text/plain''\<rparr>,
         \<lparr>doc_id = 2, doc_title = ''Fox'', doc_content = Some ''The quick brown fox'',
          doc_embedding = Some [1/2], doc_created_at = 20, doc_file_path = None,
          doc_source_url = None, doc_mime_type = Some ''text/plain''\<rparr>,
         \<lparr>doc_id = 3, doc_title = ''Draft'', doc_content = Some ''Not embedded'',
          doc_embedding = None, doc_created_at = 30, doc_file_path = None,
          doc_source_url = None, doc_mime_type = Some ''text/plain''\<rparr>],
      documents_id_seq = 3,
      notebooks =
        [\<lparr>nb_id = 1, nb_title = ''Trip'', nb_content = Some ''My notes'', nb_created_at = 40,
          nb_updated_at = 40\<rparr>,
         \<lparr>nb_id = 2, nb_title = ''Later'', nb_content = None, nb_created_at = 41,
          nb_updated_at = 41\<rparr>],
      notebook_documents = [(1, 1), (1, 2), (1, 3)],
      api_usage_logs = [], embedding_requests = [], chat_requests = []\<rparr>"

text \<open>
  A store of six documents, listed out of order; seen from the query embedding \<open>[1]\<close> of
  the example environment their distances are 0, 0.1, 0.2, 0.3, 0.4 and 0.5, and the
  farthest is the only one that contains the word \<^verbatim>\<open>fox\<close>.
\<close>

definition library_doc :: "nat \<Rightarrow> string \<Rightarrow> string \<Rightarrow> real \<Rightarrow> timestamp \<Rightarrow> document" where
  "library_doc n title content x created =
     \<lparr>doc_id = n, doc_title = title, doc_content = Some content, doc_embedding = Some [x],
      doc_created_at = created, doc_file_path = None, doc_source_url = None,
      doc_mime_type = Some ''text/plain''\<rparr>"

definition library_world :: world where
  "library_world =
     empty_world\<lparr>documents :=
        [library_doc 6 ''Fox'' ''The quick brown fox'' (1/2) 60,
         library_doc 3 ''Birds'' ''Birds fly'' (4/5) 30,
         library_doc 1 ''Cats'' ''Cats purr'' 1 10,
         library_doc 5 ''Fish'' ''Fish swim'' (3/5) 50,
         library_doc 2 ''Dogs'' ''Dogs bark'' (9/10) 20,
         library_doc 4 ''Bees'' ''Bees hum'' (7/10) 40],
       documents_id_seq := 6\<rparr>"



text \<open>The usage of a call of one prompt token.\<close>

definition one_token_usage :: usage where
  "one_token_usage = \<lparr>prompt_tokens = Some 1, completion_tokens = None, total_tokens = Some 1\<rparr>"

section \<open>Basic facts\<close>

subsection \<open>The example environments\<close>

lemma example_env_fields:
  "embeddings_create example_env = (\<lambda>t. Some \<lparr>er_usage = None, er_data = [[1]]\<rparr>)"
  "chat_completions_create example_env = (\<lambda>s u. Some \<lparr>cr_usage = None, cr_choices = [Some ''Paris.'']\<rparr>)"
  "scrapeUrl example_env = (\<lambda>u. Some \<lparr>sc_title = ''Page'', sc_content = replicate 25001 (CHR ''a'')\<rparr>)"
  "cosine_distance example_env = example_distance"
  "toFixed1 example_env = (\<lambda>x. if x = 100 then ''100.0'' else if x = 50 then ''50.0'' else ''0.0'')"
  "db_accepts_document example_env = (\<lambda>d. True)"
  "db_accepts_usage example_env = (\<lambda>r. True)"
  "fl example_env = example_fl"
  "number_text example_env = example_number_text"
  by (simp_all add: example_env_def)

lemma failing_env_fields:
  "embeddings_create failing_env = (\<lambda>t. None)"
  "scrapeUrl failing_env = scrapeUrl example_env"
  "db_accepts_document failing_env = (\<lambda>d. True)"
  "db_accepts_usage failing_env = (\<lambda>r. True)"
  by (simp_all add: failing_env_def example_env_fields)

lemma empty_page_env_fields:
  "embeddings_create empty_page_env = embeddings_create example_env"
  "scrapeUrl empty_page_env = (\<lambda>u. if u = ''http://down'' then None
                                   else Some \<lparr>sc_title = ''image.png'', sc_content = []\<rparr>)"
  by (simp_all add: empty_page_env_def)


subsection \<open>Rounding\<close>

lemma unit_roundoff_range: "0 < unit_roundoff" "unit_roundoff < 1"
  by (simp_all add: unit_roundoff_def)

lemma within_double_precision_zero: "within_double_precision f \<Longrightarrow> f 0 = 0"
proof -
  assume "within_double_precision f"
  then have "\<bar>f 0 - 0\<bar> \<le> \<bar>0\<bar> * unit_roundoff"
    unfolding within_double_precision_def by (rule spec)
  then show "f 0 = 0" by simp
qed

lemma approx_exact: "0 \<le> e \<Longrightarrow> approx 0 e e"
  by (simp add: approx_def)

lemma approx_zero: "approx k 0 0"
  by (simp add: approx_def)

lemma approx_nonneg:
  assumes "approx k e x"
  shows "0 \<le> x"
proof -
  have "0 \<le> (1 - unit_roundoff) ^ k"
    using unit_roundoff_range by simp
  moreover have "0 \<le> e" using assms by (simp add: approx_def)
  ultimately have "0 \<le> e * (1 - unit_roundoff) ^ k"
    by (rule mult_nonneg_nonneg [rotated])
  moreover have "e * (1 - unit_roundoff) ^ k \<le> x"
    using assms by (simp add: approx_def)
  ultimately show ?thesis by linarith
qed

lemma approx_fl:
  assumes "within_double_precision f" and "approx k e x"
  shows "approx (Suc k) e (f x)"
proof -
  let ?lo = "1 - unit_roundoff" and ?hi = "1 + unit_roundoff"
  have x0: "0 \<le> x" using assms(2) by (rule approx_nonneg)
  have "\<bar>f x - x\<bar> \<le> \<bar>x\<bar> * unit_roundoff"
    using assms(1) by (simp add: within_double_precision_def)
  with x0 have "f x - x \<le> x * unit_roundoff" and "x - f x \<le> x * unit_roundoff"
    by (simp_all add: abs_le_iff)
  then have lo: "x * ?lo \<le> f x" and hi: "f x \<le> x * ?hi"
    by (simp_all add: algebra_simps)
  have e0: "0 \<le> e" and l: "e * ?lo ^ k \<le> x" and h: "x \<le> e * ?hi ^ k"
    using assms(2) by (simp_all add: approx_def)
  have "e * ?lo ^ k * ?lo \<le> x * ?lo"
    using l unit_roundoff_range by (intro mult_right_mono) simp_all
  moreover have "x * ?hi \<le> e * ?hi ^ k * ?hi"
    using h unit_roundoff_range by (intro mult_right_mono) simp_all
  ultimately have "e * ?lo ^ k * ?lo \<le> f x" and "f x \<le> e * ?hi ^ k * ?hi"
    using lo hi by linarith+
  then show ?thesis
    using e0 by (simp add: approx_def mult_ac)
qed

lemma approx_mult:
  assumes "approx j e1 x" and "approx k e2 y"
  shows "approx (j + k) (e1 * e2) (x * y)"
proof -
  let ?lo = "1 - unit_roundoff" and ?hi = "1 + unit_roundoff"
  have x0: "0 \<le> x" and y0: "0 \<le> y"
    using assms by (auto dest: approx_nonneg)
  have e: "0 \<le> e1" "0 \<le> e2"
    and l1: "e1 * ?lo ^ j \<le> x" and h1: "x \<le> e1 * ?hi ^ j"
    and l2: "e2 * ?lo ^ k \<le> y" and h2: "y \<le> e2 * ?hi ^ k"
    using assms by (simp_all add: approx_def)
  have lo0: "0 \<le> ?lo ^ k" "0 \<le> ?lo ^ j" and hi0: "0 \<le> ?hi ^ k" "0 \<le> ?hi ^ j"
    using unit_roundoff_range by simp_all
  have "(e1 * ?lo ^ j) * (e2 * ?lo ^ k) \<le> x * y"
    using l1 l2 e x0 lo0 by (intro mult_mono mult_nonneg_nonneg) simp_all
  moreover have "x * y \<le> (e1 * ?hi ^ j) * (e2 * ?hi ^ k)"
    using h1 h2 e x0 y0 hi0 by (intro mult_mono mult_nonneg_nonneg) simp_all
  moreover have "(e1 * ?lo ^ j) * (e2 * ?lo ^ k) = e1 * e2 * ?lo ^ (j + k)"
    and "(e1 * ?hi ^ j) * (e2 * ?hi ^ k) = e1 * e2 * ?hi ^ (j + k)"
    by (simp_all add: power_add)
  ultimately show ?thesis
    using e by (simp add: approx_def)
qed

lemma approx_add:
  assumes "approx k e1 x" and "approx k e2 y"
  shows "approx k (e1 + e2) (x + y)"
  using assms by (simp add: approx_def distrib_right add_mono)

lemma approx_bounds:
  assumes "approx 5 e x"
  shows "e - e / 1000000000000000 \<le> x" and "x \<le> e + e / 1000000000000000"
proof -
  have lo: "1 - 1 / 1000000000000000 \<le> (1 - unit_roundoff) ^ 5"
    by (simp add: unit_roundoff_def power_divide)
  have hi: "(1 + unit_roundoff) ^ 5 \<le> 1 + 1 / 1000000000000000"
    by (simp add: unit_roundoff_def power_divide)
  have e: "0 \<le> e" and l: "e * (1 - unit_roundoff) ^ 5 \<le> x"
    and h: "x \<le> e * (1 + unit_roundoff) ^ 5"
    using assms by (simp_all add: approx_def)
  have "e * (1 - 1 / 1000000000000000) \<le> e * (1 - unit_roundoff) ^ 5"
    using lo e by (rule mult_left_mono)
  with l show "e - e / 1000000000000000 \<le> x" by (simp add: algebra_simps)
  have "e * (1 + unit_roundoff) ^ 5 \<le> e * (1 + 1 / 1000000000000000)"
    using hi e by (rule mult_left_mono)
  with h show "x \<le> e + e / 1000000000000000" by (simp add: algebra_simps)
qed

lemma numeric_10_6_near:
  assumes "0 \<le> x"
  shows "\<bar>numeric_10_6 x - x\<bar> \<le> 1 / 2000000"
proof -
  let ?y = "x * 1000000 + 1 / 2"
  have "of_int \<lfloor>?y\<rfloor> \<le> ?y" and "?y < of_int \<lfloor>?y\<rfloor> + 1"
    by linarith+
  then have "of_int \<lfloor>?y\<rfloor> / 1000000 - x \<le> 1 / 2000000"
    and "- (1 / 2000000) \<le> of_int \<lfloor>?y\<rfloor> / 1000000 - x"
    by linarith+
  then have "\<bar>of_int \<lfloor>?y\<rfloor> / 1000000 - x\<bar> \<le> 1 / 2000000"
    by linarith
  with assms show ?thesis by (simp add: numeric_10_6_def)
qed

lemma numeric_10_6_scale: "\<exists>k::int. numeric_10_6 x = of_int k / 1000000"
proof (cases "0 \<le> x")
  case True
  then have "numeric_10_6 x = of_int \<lfloor>x * 1000000 + 1 / 2\<rfloor> / 1000000"
    by (simp add: numeric_10_6_def)
  then show ?thesis by blast
next
  case False
  then have "numeric_10_6 x = of_int (- \<lfloor>- x * 1000000 + 1 / 2\<rfloor>) / 1000000"
    by (simp add: numeric_10_6_def)
  then show ?thesis by blast
qed

lemma numeric_10_6_zero: "numeric_10_6 0 = 0"
  by (simp add: numeric_10_6_def)

subsection \<open>The usage meter\<close>

text \<open>
  The example roundings are within double precision, and the rows the usage meter stores
  for the example usage.
\<close>

lemma example_fl_double: "within_double_precision example_fl"
  by (simp add: within_double_precision_def unit_roundoff_def example_fl_def
      double_0_0001_def double_0_00015_def double_0_0006_def double_0_001_def)

lemma example_number_text_double: "within_double_precision example_number_text"
  by (simp add: within_double_precision_def unit_roundoff_def example_number_text_def)

lemma PRICING_rates:
  assumes "map_of PRICING model = Some mp"
  shows "0 \<le> or_zero (price_input mp)" and "0 \<le> or_zero (price_output mp)"
  using assms by (auto simp: PRICING_def or_zero_def split: if_splits)

lemma approx_rate_or_zero:
  assumes "within_double_precision (fl env)" and "0 \<le> or_zero r"
  shows "approx 1 (or_zero r) (rate_or_zero env r)"
proof (cases r)
  case None
  then show ?thesis by (simp add: rate_or_zero_def or_zero_def approx_zero)
next
  case (Some a)
  with assms(2) have "approx 0 a a" by (simp add: or_zero_def approx_exact)
  with assms(1) have "approx (Suc 0) a (fl env a)" by (rule approx_fl)
  with Some show ?thesis by (simp add: rate_or_zero_def or_zero_def)
qed

lemma approx_term:
  assumes "within_double_precision (fl env)" and "0 \<le> or_zero r"
  shows "approx 3 (of_nat n / 1000 * or_zero r)
           (js_mul env (js_div env (of_nat n) 1000) (rate_or_zero env r))"
proof -
  have "approx 0 (of_nat n / 1000) (of_nat n / 1000)"
    by (rule approx_exact) simp
  with assms(1) have "approx (Suc 0) (of_nat n / 1000) (js_div env (of_nat n) 1000)"
    unfolding js_div_def by (rule approx_fl)
  moreover have "approx 1 (or_zero r) (rate_or_zero env r)"
    using assms by (rule approx_rate_or_zero)
  ultimately have "approx (Suc 0 + 1) (of_nat n / 1000 * or_zero r)
                     (js_div env (of_nat n) 1000 * rate_or_zero env r)"
    by (rule approx_mult)
  with assms(1) have "approx (Suc (Suc 0 + 1)) (of_nat n / 1000 * or_zero r)
                     (fl env (js_div env (of_nat n) 1000 * rate_or_zero env r))"
    by (rule approx_fl)
  then show ?thesis by (simp add: js_mul_def numeral_3_eq_3)
qed

lemma approx_computed_cost:
  assumes "within_double_precision (fl env)"
  shows "approx 4 (of_nat p / 1000 * inputRate model + of_nat c / 1000 * outputRate model)
           (computed_cost env model p c)"
proof (cases "map_of PRICING model")
  case None
  then show ?thesis
    by (simp add: computed_cost_def inputRate_def outputRate_def approx_zero)
next
  case (Some mp)
  have "approx 3 (of_nat p / 1000 * or_zero (price_input mp))
          (js_mul env (js_div env (of_nat p) 1000) (rate_or_zero env (price_input mp)))"
    using assms PRICING_rates(1) [OF Some] by (rule approx_term)
  moreover have "approx 3 (of_nat c / 1000 * or_zero (price_output mp))
          (js_mul env (js_div env (of_nat c) 1000) (rate_or_zero env (price_output mp)))"
    using assms PRICING_rates(2) [OF Some] by (rule approx_term)
  ultimately have "approx 3 (of_nat p / 1000 * or_zero (price_input mp)
                              + of_nat c / 1000 * or_zero (price_output mp))
          (js_mul env (js_div env (of_nat p) 1000) (rate_or_zero env (price_input mp))
           + js_mul env (js_div env (of_nat c) 1000) (rate_or_zero env (price_output mp)))"
    by (rule approx_add)
  with assms have "approx (Suc 3) (of_nat p / 1000 * or_zero (price_input mp)
                              + of_nat c / 1000 * or_zero (price_output mp))
          (fl env (js_mul env (js_div env (of_nat p) 1000) (rate_or_zero env (price_input mp))
           + js_mul env (js_div env (of_nat c) 1000) (rate_or_zero env (price_output mp))))"
    by (rule approx_fl)
  with Some show ?thesis
    by (simp add: computed_cost_def inputRate_def outputRate_def js_add_def Let_def)
qed

lemma stored_cost_near:
  assumes "within_double_precision (fl env)" and "within_double_precision (number_text env)"
    and "\<bar>numeric_10_6 (number_text env (computed_cost env model p c))\<bar> < 10000"
  shows "\<bar>numeric_10_6 (number_text env (computed_cost env model p c))
           - (of_nat p / 1000 * inputRate model + of_nat c / 1000 * outputRate model)\<bar>
         < 1 / 1000000"
proof -
  define e where "e = of_nat p / 1000 * inputRate model + of_nat c / 1000 * outputRate model"
  define t where "t = number_text env (computed_cost env model p c)"
  have "approx 4 e (computed_cost env model p c)"
    unfolding e_def using assms(1) by (rule approx_computed_cost)
  with assms(2) have "approx (Suc 4) e t"
    unfolding t_def by (rule approx_fl)
  then have a: "approx 5 e t" by simp
  then have t0: "0 \<le> t" by (rule approx_nonneg)
  have e0: "0 \<le> e" using a by (simp add: approx_def)
  have lo: "e - e / 1000000000000000 \<le> t" and hi: "t \<le> e + e / 1000000000000000"
    using a by (rule approx_bounds)+
  have r: "\<bar>numeric_10_6 t - t\<bar> \<le> 1 / 2000000"
    using t0 by (rule numeric_10_6_near)
  from assms(3) have "\<bar>numeric_10_6 t\<bar> < 10000" by (simp add: t_def)
  with r have "t < 10001" by linarith
  with lo have "e < 10012" by linarith
  with lo hi e0 have "\<bar>t - e\<bar> \<le> 10012 / 1000000000000000" by linarith
  with r have "\<bar>numeric_10_6 t - e\<bar> < 1 / 1000000" by linarith
  then show ?thesis by (simp add: t_def e_def)
qed

lemma example_completion_log:
  "logApiUsage example_env COMPLETION_MODEL (Some example_usage) empty_world
     = empty_world\<lparr>api_usage_logs :=
         [\<lparr>log_model = COMPLETION_MODEL, log_prompt_tokens = 1000, log_completion_tokens = 2000,
           log_total_tokens = 3000, log_cost = 135 / 100000\<rparr>]\<rparr>"
  by (simp add: logApiUsage_def usage_row_def computed_cost_def js_add_def js_mul_def js_div_def
      rate_or_zero_def numeric_10_6_def example_env_fields example_fl_def example_number_text_def
      double_0_0001_def double_0_00015_def double_0_0006_def double_0_001_def
      example_usage_def empty_world_def
      PRICING_def EMBEDDING_MODEL_def COMPLETION_MODEL_def or_zero_def Let_def)

lemma example_unlisted_log:
  "logApiUsage example_env ''my-model'' (Some example_usage) empty_world
     = empty_world\<lparr>api_usage_logs :=
         [\<lparr>log_model = ''my-model'', log_prompt_tokens = 1000, log_completion_tokens = 2000,
           log_total_tokens = 3000, log_cost = 0\<rparr>]\<rparr>"
  by (simp add: logApiUsage_def usage_row_def computed_cost_def numeric_10_6_def
      example_env_fields example_number_text_def example_usage_def empty_world_def
      PRICING_def EMBEDDING_MODEL_def COMPLETION_MODEL_def or_zero_def Let_def)

lemma example_unlisted: "map_of PRICING ''my-model'' = None"
  by (simp add: PRICING_def EMBEDDING_MODEL_def COMPLETION_MODEL_def)

lemma empty_world_logs: "api_usage_logs empty_world = []"
  by (simp add: empty_world_def)

subsection \<open>The embedding client\<close>

lemma logApiUsage_tables:
  "documents (logApiUsage env m u w) = documents w"
  "documents_id_seq (logApiUsage env m u w) = documents_id_seq w"
  "notebooks (logApiUsage env m u w) = notebooks w"
  "notebook_documents (logApiUsage env m u w) = notebook_documents w"
  "embedding_requests (logApiUsage env m u w) = embedding_requests w"
  "chat_requests (logApiUsage env m u w) = chat_requests w"
  by (simp_all add: logApiUsage_def Let_def)

lemma getEmbedding_empty: "getEmbedding env [] w = (None, w)"
  by (simp add: getEmbedding_def)

lemma getEmbedding_tables:
  assumes "getEmbedding env text w = (r, w')"
  shows "documents w' = documents w" and "documents_id_seq w' = documents_id_seq w"
    and "notebooks w' = notebooks w" and "notebook_documents w' = notebook_documents w"
    and "chat_requests w' = chat_requests w"
  using assms
  by (auto simp: getEmbedding_def Let_def logApiUsage_tables split: if_splits option.splits list.splits)

lemma getEmbedding_content_tables:
  "getEmbedding env t w = (r, w') \<Longrightarrow> content_tables w' = content_tables w"
  by (simp add: content_tables_def getEmbedding_tables)

lemma getEmbedding_requests:
  assumes "getEmbedding env text w = (r, w')"
  shows "embedding_requests w' =
           (if text = [] then embedding_requests w
            else embedding_requests w @ [replace_newlines text])"
  using assms
  by (auto simp: getEmbedding_def Let_def logApiUsage_tables split: if_splits option.splits list.splits)

lemma length_replace_newlines: "length (replace_newlines text) = length text"
  by (simp add: replace_newlines_def)

lemma new_embedding_requests_same [simp]: "new_embedding_requests w w = []"
  by (simp add: new_embedding_requests_def)

lemma new_embedding_requests_cong:
  "embedding_requests w2 = embedding_requests w1
     \<Longrightarrow> new_embedding_requests w w2 = new_embedding_requests w w1"
  by (simp add: new_embedding_requests_def)

lemma getEmbedding_new_requests:
  assumes "getEmbedding env t w = (r, w')" and "length t \<le> MAX_EMBEDDING_LENGTH"
  shows "\<forall>x \<in> set (new_embedding_requests w w'). length x \<le> MAX_EMBEDDING_LENGTH"
  using getEmbedding_requests [OF assms(1)] assms(2)
  by (simp add: new_embedding_requests_def length_replace_newlines)

subsection \<open>Extraction and insertion\<close>

text \<open>
  The early exit of the page loop does not change the first \<open>MAX_DB_STORAGE_LENGTH\<close>
  characters of the text.
\<close>

lemma take_pdf_text:
  "take MAX_DB_STORAGE_LENGTH (pdf_text pages acc)
     = take MAX_DB_STORAGE_LENGTH (acc @ pdf_full_text pages)"
proof (induction pages arbitrary: acc)
  case Nil
  show ?case by (simp add: pdf_full_text_def)
next
  case (Cons strings pages)
  let ?t = "acc @ join_space strings @ ''\<newline>''"
  show ?case
  proof (cases "length ?t > MAX_DB_STORAGE_LENGTH")
    case True
    then have "take MAX_DB_STORAGE_LENGTH (?t @ pdf_full_text pages) = take MAX_DB_STORAGE_LENGTH ?t"
      by simp
    with True show ?thesis by (simp add: pdf_full_text_def Let_def)
  next
    case False
    with Cons.IH [of ?t] show ?thesis by (simp add: pdf_full_text_def Let_def)
  qed
qed

lemma extract_full_content_eq:
  "extract_full_content data = take MAX_DB_STORAGE_LENGTH (extracted_text data)"
  using take_pdf_text [of "up_pdf_pages data" "[]"]
  by (simp add: extract_full_content_def extracted_text_def)

lemma extract_full_content_empty: "extract_full_content data = [] \<longleftrightarrow> extracted_text data = []"
  by (simp add: extract_full_content_eq MAX_DB_STORAGE_LENGTH_def)

lemma insert_document_Some:
  assumes "insert_document env now title content e fp su mt w = Some (row, w')"
  shows "documents w' = documents w @ [row]" and "doc_content row = Some content"
    and "embedding_requests w' = embedding_requests w"
  using assms by (auto simp: insert_document_def Let_def split: if_splits)

lemma insert_document_requests:
  "insert_document env now title content e fp su mt w = Some (row, w')
     \<Longrightarrow> embedding_requests w' = embedding_requests w"
  by (auto simp: insert_document_def Let_def split: if_splits)

subsection \<open>Requests sent by the ingestion routes\<close>

lemma post_documents_requests:
  "\<forall>x \<in> set (new_embedding_requests w (snd (post_documents env now data_opt w))).
      length x \<le> MAX_EMBEDDING_LENGTH"
proof (cases data_opt)
  case None
  then show ?thesis by (simp add: post_documents_def)
next
  case (Some data)
  let ?t = "take MAX_EMBEDDING_LENGTH (extract_full_content data)"
  obtain r w1 where g: "getEmbedding env ?t w = (r, w1)"
    by (cases "getEmbedding env ?t w")
  have b: "\<forall>x \<in> set (new_embedding_requests w w1). length x \<le> MAX_EMBEDDING_LENGTH"
    using g by (rule getEmbedding_new_requests) simp
  show ?thesis
  proof (cases "up_error_code data = None \<and> extract_full_content data \<noteq> []")
    case False
    with Some show ?thesis
      by (auto simp: post_documents_def Let_def split: option.splits)
  next
    case True
    show ?thesis
    proof (cases r)
      case None
      with Some True g b show ?thesis
        by (simp add: post_documents_def Let_def)
    next
      case (Some e)
      show ?thesis
      proof (cases "insert_document env now (up_filename data) (extract_full_content data) e
                      (Some (up_file_path data)) None None w1")
        case None
        with \<open>data_opt = Some data\<close> \<open>r = Some e\<close> True g b show ?thesis
          by (simp add: post_documents_def Let_def)
      next
        case (Some p)
        obtain row w2 where p: "p = (row, w2)" by (cases p)
        have "embedding_requests w2 = embedding_requests w1"
          using Some p by (simp add: insert_document_requests)
        then have "new_embedding_requests w w2 = new_embedding_requests w w1"
          by (rule new_embedding_requests_cong)
        with \<open>data_opt = Some data\<close> \<open>r = Some e\<close> Some p True g b show ?thesis
          by (simp add: post_documents_def Let_def)
      qed
    qed
  qed
qed

lemma post_texts_requests:
  "\<forall>x \<in> set (new_embedding_requests w (snd (post_texts env now title_opt content_opt w))).
      length x \<le> MAX_EMBEDDING_LENGTH"
proof (cases "falsy title_opt \<or> falsy content_opt")
  case True
  then show ?thesis by (simp add: post_texts_def)
next
  case False
  let ?t = "take MAX_EMBEDDING_LENGTH (the content_opt)"
  obtain r w1 where g: "getEmbedding env ?t w = (r, w1)"
    by (cases "getEmbedding env ?t w")
  have b: "\<forall>x \<in> set (new_embedding_requests w w1). length x \<le> MAX_EMBEDDING_LENGTH"
    using g by (rule getEmbedding_new_requests) simp
  show ?thesis
  proof (cases r)
    case None
    with False g b show ?thesis
      by (simp add: post_texts_def Let_def)
  next
    case (Some e)
    show ?thesis
    proof (cases "insert_document env now (the title_opt) (the content_opt) e None None
                    (Some ''text/plain'') w1")
      case None
      with \<open>r = Some e\<close> False g b show ?thesis
        by (simp add: post_texts_def Let_def)
    next
      case (Some p)
      obtain row w2 where p: "p = (row, w2)" by (cases p)
      have "embedding_requests w2 = embedding_requests w1"
        using Some p by (simp add: insert_document_requests)
      then have "new_embedding_requests w w2 = new_embedding_requests w w1"
        by (rule new_embedding_requests_cong)
      with \<open>r = Some e\<close> Some p False g b show ?thesis
        by (simp add: post_texts_def Let_def)
    qed
  qed
qed

lemma post_urls_requests:
  "\<forall>x \<in> set (new_embedding_requests w (snd (post_urls env now url_opt w))).
      length x \<le> MAX_EMBEDDING_LENGTH"
proof (cases "falsy url_opt \<or> scrapeUrl env (the url_opt) = None")
  case True
  then show ?thesis by (auto simp: post_urls_def Let_def)
next
  case False
  then obtain sd where sd: "scrapeUrl env (the url_opt) = Some sd" by auto
  let ?t = "take 15000 (sc_content sd)"
  obtain r w1 where g: "getEmbedding env ?t w = (r, w1)"
    by (cases "getEmbedding env ?t w")
  have b: "\<forall>x \<in> set (new_embedding_requests w w1). length x \<le> MAX_EMBEDDING_LENGTH"
    using g by (rule getEmbedding_new_requests) (simp add: MAX_EMBEDDING_LENGTH_def)
  show ?thesis
  proof (cases r)
    case None
    with False sd g b show ?thesis
      by (simp add: post_urls_def Let_def)
  next
    case (Some e)
    show ?thesis
    proof (cases "insert_document env now (if sc_title sd = [] then the url_opt else sc_title sd)
                    ?t e None (Some (the url_opt)) (Some ''text/html'') w1")
      case None
      with \<open>r = Some e\<close> False sd g b show ?thesis
        by (simp add: post_urls_def Let_def)
    next
      case (Some p)
      obtain row w2 where p: "p = (row, w2)" by (cases p)
      have "embedding_requests w2 = embedding_requests w1"
        using Some p by (simp add: insert_document_requests)
      then have "new_embedding_requests w w2 = new_embedding_requests w w1"
        by (rule new_embedding_requests_cong)
      with \<open>r = Some e\<close> Some p False sd g b show ?thesis
        by (simp add: post_urls_def Let_def)
    qed
  qed
qed

lemma post_documents_created:
  assumes "fst (fst (post_documents env now (Some data) w)) = 201"
  shows "\<exists>d. documents (snd (post_documents env now (Some data) w)) = documents w @ [d]
             \<and> doc_content d = Some (take MAX_DB_STORAGE_LENGTH (extracted_text data))"
proof -
  let ?t = "take MAX_EMBEDDING_LENGTH (extract_full_content data)"
  obtain r w1 where g: "getEmbedding env ?t w = (r, w1)"
    by (cases "getEmbedding env ?t w")
  have d1: "documents w1 = documents w"
    using g by (rule getEmbedding_tables)
  from assms g obtain e row w2 where
    i: "insert_document env now (up_filename data) (extract_full_content data) e
          (Some (up_file_path data)) None None w1 = Some (row, w2)"
    and s: "snd (post_documents env now (Some data) w) = w2"
    by (auto simp: post_documents_def Let_def split: option.splits if_splits)
  from i have "documents w2 = documents w1 @ [row]"
    and "doc_content row = Some (extract_full_content data)"
    by (rule insert_document_Some)+
  with d1 s show ?thesis
    by (simp add: extract_full_content_eq)
qed

subsection \<open>Ingestion of the empty string\<close>

text \<open>
  When the extracted text is the empty string the reply is an error and the state is
  unchanged: no request is sent to the embeddings endpoint and nothing is stored.
\<close>

lemma empty_string_is_rejected:
  "(extracted_text data = [] \<longrightarrow>
      is_error_reply (fst (post_documents env now (Some data) w))
      \<and> snd (post_documents env now (Some data) w) = w)
   \<and> (scrapeUrl env url = Some sd \<and> sc_content sd = [] \<longrightarrow>
      is_error_reply (fst (post_urls env now (Some url) w))
      \<and> snd (post_urls env now (Some url) w) = w)
   \<and> (scrapeUrl env url = None \<longrightarrow>
      is_error_reply (fst (post_urls env now (Some url) w))
      \<and> snd (post_urls env now (Some url) w) = w)
   \<and> is_error_reply (fst (post_texts env now title_opt (Some []) w))
   \<and> snd (post_texts env now title_opt (Some []) w) = w"
proof (intro conjI impI)
  assume "extracted_text data = []"
  then have e: "extract_full_content data = []"
    by (simp add: extract_full_content_empty)
  from e show "is_error_reply (fst (post_documents env now (Some data) w))"
    by (simp add: post_documents_def is_error_reply_def split: option.splits)
  from e show "snd (post_documents env now (Some data) w) = w"
    by (simp add: post_documents_def split: option.splits)
next
  assume a: "scrapeUrl env url = Some sd \<and> sc_content sd = []"
  then show "is_error_reply (fst (post_urls env now (Some url) w))"
    by (simp add: post_urls_def is_error_reply_def getEmbedding_empty Let_def)
  from a show "snd (post_urls env now (Some url) w) = w"
    by (simp add: post_urls_def getEmbedding_empty Let_def)
next
  assume a: "scrapeUrl env url = None"
  then show "is_error_reply (fst (post_urls env now (Some url) w))"
    by (simp add: post_urls_def is_error_reply_def Let_def)
  from a show "snd (post_urls env now (Some url) w) = w"
    by (simp add: post_urls_def Let_def)
next
  show "is_error_reply (fst (post_texts env now title_opt (Some []) w))"
    by (simp add: post_texts_def is_error_reply_def falsy_def)
  show "snd (post_texts env now title_opt (Some []) w) = w"
    by (simp add: post_texts_def falsy_def)
qed

subsection \<open>Ingestion when the embedding client returns null\<close>

lemma post_documents_embedding_null:
  assumes "fst (getEmbedding env (take MAX_EMBEDDING_LENGTH (extract_full_content data)) w) = None"
  shows "is_error_reply (fst (post_documents env now (Some data) w))
         \<and> content_tables (snd (post_documents env now (Some data) w)) = content_tables w"
proof -
  obtain w1 where g: "getEmbedding env (take MAX_EMBEDDING_LENGTH (extract_full_content data)) w = (None, w1)"
    using assms by (cases "getEmbedding env (take MAX_EMBEDDING_LENGTH (extract_full_content data)) w") simp
  have "content_tables w1 = content_tables w"
    using g by (rule getEmbedding_content_tables)
  with g show ?thesis
    by (simp add: post_documents_def is_error_reply_def Let_def split: option.splits)
qed

lemma post_texts_embedding_null:
  assumes "fst (getEmbedding env (take MAX_EMBEDDING_LENGTH content) w) = None"
  shows "is_error_reply (fst (post_texts env now title_opt (Some content) w))
         \<and> content_tables (snd (post_texts env now title_opt (Some content) w)) = content_tables w"
proof -
  obtain w1 where g: "getEmbedding env (take MAX_EMBEDDING_LENGTH content) w = (None, w1)"
    using assms by (cases "getEmbedding env (take MAX_EMBEDDING_LENGTH content) w") simp
  have "content_tables w1 = content_tables w"
    using g by (rule getEmbedding_content_tables)
  with g show ?thesis
    by (simp add: post_texts_def is_error_reply_def Let_def)
qed

lemma post_urls_embedding_null:
  assumes "scrapeUrl env url = Some sd"
    and "fst (getEmbedding env (take 15000 (sc_content sd)) w) = None"
  shows "is_error_reply (fst (post_urls env now (Some url) w))
         \<and> content_tables (snd (post_urls env now (Some url) w)) = content_tables w"
proof -
  obtain w1 where g: "getEmbedding env (take 15000 (sc_content sd)) w = (None, w1)"
    using assms(2) by (cases "getEmbedding env (take 15000 (sc_content sd)) w") simp
  have "content_tables w1 = content_tables w"
    using g by (rule getEmbedding_content_tables)
  with g assms(1) show ?thesis
    by (simp add: post_urls_def is_error_reply_def Let_def)
qed

subsection \<open>Notebooks\<close>

lemma touch_notebook_fields:
  "documents (touch_notebook now nb w) = documents w"
  "notebook_documents (touch_notebook now nb w) = notebook_documents w"
  by (simp_all add: touch_notebook_def)

lemma find_notebook_touch:
  assumes "find_notebook w nb = Some n"
  shows "find_notebook (touch_notebook now nb w) nb = Some (n\<lparr>nb_updated_at := now\<rparr>)"
proof -
  let ?f = "\<lambda>n. if nb_id n = nb then n\<lparr>nb_updated_at := now\<rparr> else n"
  have "[m \<leftarrow> map ?f (notebooks w). nb_id m = nb] = map ?f [m \<leftarrow> notebooks w. nb_id m = nb]"
    by (induction "notebooks w") (auto simp: filter_map comp_def)
  moreover from assms obtain ms where "[m \<leftarrow> notebooks w. nb_id m = nb] = n # ms"
    by (auto simp: find_notebook_def split: list.splits)
  moreover have "nb_id n = nb"
  proof -
    have "n \<in> set [m \<leftarrow> notebooks w. nb_id m = nb]"
      using \<open>[m \<leftarrow> notebooks w. nb_id m = nb] = n # ms\<close> by simp
    then show ?thesis by simp
  qed
  ultimately show ?thesis
    by (simp add: find_notebook_def touch_notebook_def)
qed

lemma set_notebook_documents_of:
  "set (notebook_documents_of w nb)
     = {d \<in> set (documents w). (nb, doc_id d) \<in> set (notebook_documents w)}"
  by (auto simp: notebook_documents_of_def)

subsection \<open>Retrieval for question answering\<close>

lemma set_qa_candidates:
  "set (qa_candidates w nb)
     = {d \<in> set (documents w). (nb, doc_id d) \<in> set (notebook_documents w) \<and> doc_embedding d \<noteq> None}"
  by (auto simp: qa_candidates_def)

lemma set_qa_retrieved: "set (qa_retrieved env v nb w) \<subseteq> set (qa_candidates w nb)"
proof -
  have "set (take 5 (sort_key (qa_distance env v) (qa_candidates w nb)))
          \<subseteq> set (sort_key (qa_distance env v) (qa_candidates w nb))"
    by (rule set_take_subset)
  then show ?thesis by (simp add: qa_retrieved_def)
qed

lemma length_qa_retrieved: "length (qa_retrieved env v nb w) \<le> 5"
  by (simp add: qa_retrieved_def)


lemma qa_candidates_without_null:
  "qa_candidates (w\<lparr>documents := [d \<leftarrow> documents w. doc_embedding d \<noteq> None]\<rparr>) nb = qa_candidates w nb"
proof -
  have "concat (map (\<lambda>d. concat (map (\<lambda>nd. if doc_id d = snd nd \<and> fst nd = nb \<and> doc_embedding d \<noteq> None then [d] else []) ms))
          [d \<leftarrow> ds. doc_embedding d \<noteq> None])
        = concat (map (\<lambda>d. concat (map (\<lambda>nd. if doc_id d = snd nd \<and> fst nd = nb \<and> doc_embedding d \<noteq> None then [d] else []) ms)) ds)"
    for ds :: "document list" and ms :: "(nat \<times> nat) list"
  proof (induction ds)
    case Nil
    show ?case by simp
  next
    case (Cons d ds)
    have "concat (map (\<lambda>nd. if doc_id d = snd nd \<and> fst nd = nb \<and> doc_embedding d \<noteq> None then [d] else []) ms) = []"
      if "doc_embedding d = None"
      using that by (induction ms) simp_all
    with Cons show ?case by simp
  qed
  then show ?thesis by (simp add: qa_candidates_def)
qed






subsection \<open>Search\<close>

lemma length_search_rows: "length (search_rows env v w) \<le> 5"
  by (simp add: search_rows_def Let_def)

section \<open>Search\<close>

text \<open>
  C1. The search route on the store of six documents, for the query \<^verbatim>\<open>fox\<close> with
  \<^verbatim>\<open>limit: 10\<close>: the reply lists the five documents nearest to the query embedding, in
  ascending order of distance, each with its id, title, creation time and distance. There
  is no lexical ranking and no fused score; the limit of the request is not read; the
  sixth document, the only one that contains the word, is not returned.
\<close>

theorem search_returns_five_nearest:
  "post_documents_search example_env \<lparr>sq_query = Some ''fox'', sq_limit = Some 10\<rparr> library_world
     = ((200, SearchRows
          [\<lparr>sr_id = 1, sr_title = ''Cats'', sr_created_at = 10, sr_distance = Some 0\<rparr>,
           \<lparr>sr_id = 2, sr_title = ''Dogs'', sr_created_at = 20, sr_distance = Some (1/10)\<rparr>,
           \<lparr>sr_id = 3, sr_title = ''Birds'', sr_created_at = 30, sr_distance = Some (1/5)\<rparr>,
           \<lparr>sr_id = 4, sr_title = ''Bees'', sr_created_at = 40, sr_distance = Some (3/10)\<rparr>,
           \<lparr>sr_id = 5, sr_title = ''Fish'', sr_created_at = 50, sr_distance = Some (2/5)\<rparr>]),
        library_world\<lparr>embedding_requests := [''fox'']\<rparr>)"
  by (simp add: post_documents_search_def falsy_def getEmbedding_def replace_newlines_def
      search_rows_def library_world_def library_doc_def empty_world_def example_env_fields
      example_distance_def Let_def del: not_None_eq)

section \<open>Usage meter: the stored cost\<close>

text \<open>
  C8, as the source has it. Whenever \<^verbatim>\<open>logApiUsage\<close> records a call, the row it appends
  carries the model name, the token counts, and as cost the value that the formula (prompt
  tokens divided by 1000 times the input rate plus completion tokens divided by 1000 times
  the output rate, rates from the static price table) takes in JavaScript's double
  arithmetic, sent as decimal text and rounded to six decimals by the column
  \<^verbatim>\<open>cost NUMERIC(10, 6)\<close>. The stored cost is a multiple of one millionth and lies within
  one millionth of the exact value of the formula; for a model the table does not list it
  is exactly 0. The roundings of the language are assumed to be within double precision.
\<close>

theorem logApiUsage_stored_cost:
  assumes "api_usage_logs (logApiUsage env model usage_opt w) \<noteq> api_usage_logs w"
    and "within_double_precision (fl env)"
    and "within_double_precision (number_text env)"
  shows "\<exists>r. api_usage_logs (logApiUsage env model usage_opt w) = api_usage_logs w @ [r]
           \<and> log_model r = model
           \<and> log_prompt_tokens r = (case usage_opt of None \<Rightarrow> 0 | Some u \<Rightarrow> or_zero (prompt_tokens u))
           \<and> log_completion_tokens r
               = (case usage_opt of None \<Rightarrow> 0 | Some u \<Rightarrow> or_zero (completion_tokens u))
           \<and> log_cost r
               = numeric_10_6 (number_text env
                   (computed_cost env model (log_prompt_tokens r) (log_completion_tokens r)))
           \<and> (\<exists>k::int. log_cost r = of_int k / 1000000)
           \<and> \<bar>log_cost r - (of_nat (log_prompt_tokens r) / 1000 * inputRate model
                              + of_nat (log_completion_tokens r) / 1000 * outputRate model)\<bar>
               < 1 / 1000000
           \<and> (map_of PRICING model = None \<longrightarrow> log_cost r = 0)"
proof -
  let ?row = "usage_row env model usage_opt"
  from assms(1) have fits: "\<bar>log_cost ?row\<bar> < 10000"
    by (auto simp: logApiUsage_def Let_def split: if_splits)
  from assms(1) have a: "api_usage_logs (logApiUsage env model usage_opt w) = api_usage_logs w @ [?row]"
    by (auto simp: logApiUsage_def Let_def split: if_splits)
  have b: "log_model ?row = model"
    by (simp add: usage_row_def Let_def)
  have p: "log_prompt_tokens ?row = (case usage_opt of None \<Rightarrow> 0 | Some u \<Rightarrow> or_zero (prompt_tokens u))"
    by (simp add: usage_row_def Let_def)
  have q: "log_completion_tokens ?row
             = (case usage_opt of None \<Rightarrow> 0 | Some u \<Rightarrow> or_zero (completion_tokens u))"
    by (simp add: usage_row_def Let_def)
  have c: "log_cost ?row
             = numeric_10_6 (number_text env
                 (computed_cost env model (log_prompt_tokens ?row) (log_completion_tokens ?row)))"
    by (simp add: usage_row_def Let_def)
  have s: "\<exists>k::int. log_cost ?row = of_int k / 1000000"
    unfolding c by (rule numeric_10_6_scale)
  have n: "\<bar>log_cost ?row - (of_nat (log_prompt_tokens ?row) / 1000 * inputRate model
                              + of_nat (log_completion_tokens ?row) / 1000 * outputRate model)\<bar>
               < 1 / 1000000"
    using fits unfolding c by (intro stored_cost_near assms(2,3))
  have d: "map_of PRICING model = None \<longrightarrow> log_cost ?row = 0"
    using within_double_precision_zero [OF assms(3)]
    by (simp add: usage_row_def computed_cost_def numeric_10_6_zero Let_def)
  show ?thesis
    by (rule exI [of _ ?row]) (intro conjI a b p q c s n d)
qed

text \<open>
  The theorem on the example usage, 1000 prompt and 2000 completion tokens: under the
  completion model JavaScript computes 0.0013499999999999999 and the column stores
  0.001350; under a model the table does not list, 0 is stored.
\<close>

theorem logApiUsage_stored_cost_witness:
  "api_usage_logs (logApiUsage example_env COMPLETION_MODEL (Some example_usage) empty_world)
     \<noteq> api_usage_logs empty_world
   \<and> within_double_precision (fl example_env)
   \<and> within_double_precision (number_text example_env)
   \<and> api_usage_logs (logApiUsage example_env COMPLETION_MODEL (Some example_usage) empty_world)
       = [\<lparr>log_model = COMPLETION_MODEL, log_prompt_tokens = 1000, log_completion_tokens = 2000,
           log_total_tokens = 3000, log_cost = 135 / 100000\<rparr>]
   \<and> map_of PRICING ''my-model'' = None
   \<and> api_usage_logs (logApiUsage example_env ''my-model'' (Some example_usage) empty_world)
       = [\<lparr>log_model = ''my-model'', log_prompt_tokens = 1000, log_completion_tokens = 2000,
           log_total_tokens = 3000, log_cost = 0\<rparr>]"
  using logApiUsage_stored_cost [of example_env COMPLETION_MODEL "Some example_usage" empty_world]
    logApiUsage_stored_cost [of example_env "''my-model''" "Some example_usage" empty_world]
  by (simp add: example_completion_log example_unlisted_log example_unlisted
      empty_world_logs example_env_fields example_fl_double example_number_text_double)

text \<open>
  The stored cost is not the value of the formula: for one prompt token of the embedding
  model JavaScript computes 1.0000000000000001e-7, the column stores 0.000000, and the
  formula gives one ten-millionth.
\<close>

theorem stored_cost_rounds_counterexample:
  "api_usage_logs (logApiUsage example_env EMBEDDING_MODEL (Some one_token_usage) empty_world)
     = [\<lparr>log_model = EMBEDDING_MODEL, log_prompt_tokens = 1, log_completion_tokens = 0,
         log_total_tokens = 1, log_cost = 0\<rparr>]
   \<and> of_nat 1 / 1000 * inputRate EMBEDDING_MODEL + of_nat 0 / 1000 * outputRate EMBEDDING_MODEL
       = 1 / 10000000
   \<and> (0::real) \<noteq> 1 / 10000000"
  by (simp add: logApiUsage_def usage_row_def computed_cost_def js_add_def js_mul_def js_div_def
      rate_or_zero_def numeric_10_6_def example_env_fields example_fl_def example_number_text_def
      double_0_0001_def double_0_00015_def double_0_0006_def double_0_001_def
      one_token_usage_def empty_world_def inputRate_def outputRate_def
      PRICING_def EMBEDDING_MODEL_def COMPLETION_MODEL_def or_zero_def Let_def)

section \<open>Ingestion: embedding failure\<close>

text \<open>
  C4. On each of the three ingestion routes (file upload, text block, URL), when the
  embedding client \<^verbatim>\<open>getEmbedding\<close> returns null for the text of the request, the reply
  is an error and no content item is inserted: the documents table, its id sequence, the
  notebooks and the memberships are what they were.
\<close>

theorem embedding_failure_inserts_nothing:
  "(fst (getEmbedding env (take MAX_EMBEDDING_LENGTH (extract_full_content data)) w) = None \<longrightarrow>
      is_error_reply (fst (post_documents env now (Some data) w))
      \<and> content_tables (snd (post_documents env now (Some data) w)) = content_tables w)
   \<and> (fst (getEmbedding env (take MAX_EMBEDDING_LENGTH content) w) = None \<longrightarrow>
      is_error_reply (fst (post_texts env now title_opt (Some content) w))
      \<and> content_tables (snd (post_texts env now title_opt (Some content) w)) = content_tables w)
   \<and> (scrapeUrl env url = Some sd
       \<and> fst (getEmbedding env (take 15000 (sc_content sd)) w) = None \<longrightarrow>
      is_error_reply (fst (post_urls env now (Some url) w))
      \<and> content_tables (snd (post_urls env now (Some url) w)) = content_tables w)"
  using post_documents_embedding_null [of env data w now]
    post_texts_embedding_null [of env content w now title_opt]
    post_urls_embedding_null [of env url sd w now]
  by blast

text \<open>
  The theorem with the embeddings endpoint down: each route answers 500
  \<^verbatim>\<open>Failed to generate embedding\<close> and the tables stay empty.
\<close>

theorem embedding_failure_inserts_nothing_witness:
  "fst (getEmbedding failing_env (take MAX_EMBEDDING_LENGTH (extract_full_content example_upload)) empty_world) = None
   \<and> post_documents failing_env 7 (Some example_upload) empty_world
       = ((500, ErrorBody ''Failed to generate embedding''),
          empty_world\<lparr>embedding_requests := [replicate 15000 (CHR ''a'')]\<rparr>)
   \<and> content_tables (snd (post_documents failing_env 7 (Some example_upload) empty_world)) = content_tables empty_world
   \<and> fst (getEmbedding failing_env (take MAX_EMBEDDING_LENGTH ''The quick brown fox'') empty_world) = None
   \<and> fst (post_texts failing_env 7 (Some ''A'') (Some ''The quick brown fox'') empty_world)
       = (500, ErrorBody ''Failed to generate embedding'')
   \<and> content_tables (snd (post_texts failing_env 7 (Some ''A'') (Some ''The quick brown fox'') empty_world)) = content_tables empty_world
   \<and> scrapeUrl failing_env ''http://a.b'' = Some \<lparr>sc_title = ''Page'', sc_content = replicate 25001 (CHR ''a'')\<rparr>
   \<and> fst (getEmbedding failing_env (take 15000 (replicate 25001 (CHR ''a''))) empty_world) = None
   \<and> fst (post_urls failing_env 7 (Some ''http://a.b'') empty_world)
       = (500, ErrorBody ''Failed to generate embedding'')
   \<and> content_tables (snd (post_urls failing_env 7 (Some ''http://a.b'') empty_world)) = content_tables empty_world"
  using embedding_failure_inserts_nothing [of failing_env example_upload empty_world 7
      "''The quick brown fox''" "Some ''A''" "''http://a.b''"
      "\<lparr>sc_title = ''Page'', sc_content = replicate 25001 (CHR ''a'')\<rparr>"]
  by (simp add: getEmbedding_def post_documents_def post_texts_def post_urls_def
      extract_full_content_def example_upload_def MAX_EMBEDDING_LENGTH_def
      MAX_DB_STORAGE_LENGTH_def falsy_def Let_def replace_newlines_def
      failing_env_fields example_env_fields empty_world_def content_tables_def is_error_reply_def)

section \<open>Ingestion: a document without text\<close>

text \<open>
  C6. The upload of a PDF whose single page carries no text item: the page loop appends a
  newline for the page, so the extracted text is one newline and the check for an empty
  text does not apply. A request with a single space (the newline replaced) is sent to the
  embeddings endpoint, and the item is stored with a newline as content and answered 201.
  On the URL route a scrape without content is passed to \<^verbatim>\<open>getEmbedding\<close>, which returns
  null for the empty string, and the reply is the 500 of a failed embedding.
\<close>

theorem blank_pdf_is_embedded_and_stored:
  "up_pdf_pages blank_pdf = [Nil]
   \<and> post_documents example_env 7 (Some blank_pdf) empty_world
       = ((201, DocumentCreated 1 ''scan.pdf'' 7),
          empty_world\<lparr>documents :=
              [\<lparr>doc_id = 1, doc_title = ''scan.pdf'', doc_content = Some ''\<newline>'',
                doc_embedding = Some [1], doc_created_at = 7,
                doc_file_path = Some ''uploads/1b.pdf'', doc_source_url = None,
                doc_mime_type = None\<rparr>],
            documents_id_seq := 1,
            embedding_requests := ['' '']\<rparr>)
   \<and> scrapeUrl empty_page_env ''http://a.b/image.png''
       = Some \<lparr>sc_title = ''image.png'', sc_content = []\<rparr>
   \<and> getEmbedding empty_page_env [] empty_world = (None, empty_world)
   \<and> post_urls empty_page_env 7 (Some ''http://a.b/image.png'') empty_world
       = ((500, ErrorBody ''Failed to generate embedding''), empty_world)"
  by (simp add: post_documents_def post_urls_def getEmbedding_def insert_document_def
      extract_full_content_def blank_pdf_def MAX_DB_STORAGE_LENGTH_def MAX_EMBEDDING_LENGTH_def
      replace_newlines_def falsy_def example_env_fields empty_page_env_fields empty_world_def
      Let_def)

section \<open>Ingestion: the storage and embedding limits\<close>

text \<open>
  C2, as the source has it. On the file upload route, when the text of the file is longer
  than \<open>MAX_DB_STORAGE_LENGTH\<close> and the item is created, the stored content has exactly
  \<open>MAX_DB_STORAGE_LENGTH\<close> characters. On all three routes every text sent to the
  embeddings endpoint has at most \<open>MAX_EMBEDDING_LENGTH\<close> characters, and
  \<open>MAX_EMBEDDING_LENGTH \<le> MAX_DB_STORAGE_LENGTH\<close>.
\<close>

theorem storage_and_embedding_limits:
  "(fst (fst (post_documents env now (Some data) w)) = 201
      \<and> length (extracted_text data) > MAX_DB_STORAGE_LENGTH \<longrightarrow>
      (\<exists>d c. documents (snd (post_documents env now (Some data) w)) = documents w @ [d]
             \<and> doc_content d = Some c \<and> length c = MAX_DB_STORAGE_LENGTH))
   \<and> (\<forall>x \<in> set (new_embedding_requests w (snd (post_documents env now data_opt w))).
         length x \<le> MAX_EMBEDDING_LENGTH)
   \<and> (\<forall>x \<in> set (new_embedding_requests w (snd (post_texts env now title_opt content_opt w))).
         length x \<le> MAX_EMBEDDING_LENGTH)
   \<and> (\<forall>x \<in> set (new_embedding_requests w (snd (post_urls env now url_opt w))).
         length x \<le> MAX_EMBEDDING_LENGTH)
   \<and> MAX_EMBEDDING_LENGTH \<le> MAX_DB_STORAGE_LENGTH"
proof -
  have "\<exists>d c. documents (snd (post_documents env now (Some data) w)) = documents w @ [d]
             \<and> doc_content d = Some c \<and> length c = MAX_DB_STORAGE_LENGTH"
    if a: "fst (fst (post_documents env now (Some data) w)) = 201
      \<and> length (extracted_text data) > MAX_DB_STORAGE_LENGTH"
  proof -
    from a obtain d where
      "documents (snd (post_documents env now (Some data) w)) = documents w @ [d]"
      "doc_content d = Some (take MAX_DB_STORAGE_LENGTH (extracted_text data))"
      using post_documents_created by blast
    moreover have "length (take MAX_DB_STORAGE_LENGTH (extracted_text data)) = MAX_DB_STORAGE_LENGTH"
      using a by simp
    ultimately show ?thesis by blast
  qed
  moreover have "MAX_EMBEDDING_LENGTH \<le> MAX_DB_STORAGE_LENGTH"
    by (simp add: MAX_EMBEDDING_LENGTH_def MAX_DB_STORAGE_LENGTH_def)
  ultimately show ?thesis
    using post_documents_requests [of w env now data_opt]
      post_texts_requests [of w env now title_opt content_opt]
      post_urls_requests [of w env now url_opt]
    by blast
qed

text \<open>
  The theorem on an upload of 25001 characters: 25000 are stored and 15000 are embedded.
\<close>

theorem storage_and_embedding_limits_witness:
  "post_documents example_env 7 (Some example_upload) empty_world
     = ((201, DocumentCreated 1 ''notes.txt'' 7),
        empty_world\<lparr>documents :=
            [\<lparr>doc_id = 1, doc_title = ''notes.txt'',
              doc_content = Some (replicate 25000 (CHR ''a'')), doc_embedding = Some [1],
              doc_created_at = 7, doc_file_path = Some ''uploads/0a.txt'',
              doc_source_url = None, doc_mime_type = None\<rparr>],
          documents_id_seq := 1,
          embedding_requests := [replicate 15000 (CHR ''a'')]\<rparr>)
   \<and> length (extracted_text example_upload) > MAX_DB_STORAGE_LENGTH
   \<and> length (replicate 25000 (CHR ''a'')) = MAX_DB_STORAGE_LENGTH
   \<and> new_embedding_requests empty_world (snd (post_documents example_env 7 (Some example_upload) empty_world))
       = [replicate 15000 (CHR ''a'')]
   \<and> new_embedding_requests empty_world
        (snd (post_texts example_env 7 (Some ''A'') (Some (replicate 25001 (CHR ''a''))) empty_world))
       = [replicate 15000 (CHR ''a'')]
   \<and> new_embedding_requests empty_world (snd (post_urls example_env 7 (Some ''http://a.b'') empty_world))
       = [replicate 15000 (CHR ''a'')]"
  using storage_and_embedding_limits [where env = example_env and now = 7
      and data = example_upload and w = empty_world and data_opt = "Some example_upload"
      and title_opt = "Some ''A''" and content_opt = "Some (replicate 25001 (CHR ''a''))"
      and url_opt = "Some ''http://a.b''"]
  by (simp add: getEmbedding_def post_documents_def post_texts_def post_urls_def
      insert_document_def extract_full_content_def extracted_text_def example_upload_def
      MAX_EMBEDDING_LENGTH_def MAX_DB_STORAGE_LENGTH_def falsy_def Let_def replace_newlines_def
      new_embedding_requests_def example_env_fields empty_world_def)

text \<open>
  The storage limit is not applied on the other two routes: a text block of 25001
  characters is stored whole, and a scraped page of 25001 characters is stored cut to the
  15000 characters that are embedded.
\<close>

theorem storage_limit_counterexample:
  "length (replicate 25001 (CHR ''a'')) > MAX_DB_STORAGE_LENGTH
   \<and> fst (fst (post_texts example_env 7 (Some ''A'') (Some (replicate 25001 (CHR ''a''))) empty_world)) = 201
   \<and> map doc_content (documents (snd (post_texts example_env 7 (Some ''A'')
             (Some (replicate 25001 (CHR ''a''))) empty_world)))
       = [Some (replicate 25001 (CHR ''a''))]
   \<and> length (replicate 25001 (CHR ''a'')) \<noteq> MAX_DB_STORAGE_LENGTH
   \<and> sc_content (the (scrapeUrl example_env ''http://a.b'')) = replicate 25001 (CHR ''a'')
   \<and> fst (fst (post_urls example_env 7 (Some ''http://a.b'') empty_world)) = 201
   \<and> map doc_content (documents (snd (post_urls example_env 7 (Some ''http://a.b'') empty_world)))
       = [Some (replicate 15000 (CHR ''a''))]
   \<and> length (replicate 15000 (CHR ''a'')) \<noteq> MAX_DB_STORAGE_LENGTH"
  by (simp add: getEmbedding_def post_texts_def post_urls_def
      insert_document_def MAX_EMBEDDING_LENGTH_def MAX_DB_STORAGE_LENGTH_def falsy_def Let_def
      replace_newlines_def example_env_fields empty_world_def)

section \<open>Notebooks: removing a document\<close>

text \<open>
  C7. For a notebook and a document that is a member of it: removing the membership
  answers 204, and the notebook fetched afterwards lists no document with that id and has
  \<^verbatim>\<open>updated_at\<close> equal to the reading of the database clock at the removal. That reading
  is assumed to be later than the notebook's previous \<^verbatim>\<open>updated_at\<close> (time has passed
  since the notebook was last touched), so the new timestamp is strictly newer.
\<close>

theorem remove_document_then_fetch:
  assumes "find_notebook w nb = Some n"
    and "(nb, d) \<in> set (notebook_documents w)"
    and "nb_updated_at n < now"
  shows "get_notebook nb w = (200, NotebookBody n (notebook_documents_of w nb))
         \<and> fst (delete_notebook_document now nb d w) = (204, NoBody)
         \<and> (\<exists>n' docs. get_notebook nb (snd (delete_notebook_document now nb d w))
                          = (200, NotebookBody n' docs)
                \<and> d \<notin> doc_id ` set docs
                \<and> nb_updated_at n' = now
                \<and> nb_updated_at n < nb_updated_at n')"
proof -
  let ?w1 = "w\<lparr>notebook_documents := [nd \<leftarrow> notebook_documents w. nd \<noteq> (nb, d)]\<rparr>"
  let ?w2 = "touch_notebook now nb ?w1"
  have cnt: "length [nd \<leftarrow> notebook_documents w. nd = (nb, d)] \<noteq> 0"
    using assms(2) by (simp add: filter_empty_conv)
  then have del: "delete_notebook_document now nb d w = ((204, NoBody), ?w2)"
    by (simp add: delete_notebook_document_def Let_def)
  have "find_notebook ?w1 nb = Some n"
    using assms(1) by (simp add: find_notebook_def)
  then have f: "find_notebook ?w2 nb = Some (n\<lparr>nb_updated_at := now\<rparr>)"
    by (rule find_notebook_touch)
  have absent: "d \<notin> doc_id ` set (notebook_documents_of ?w2 nb)"
    by (auto simp: set_notebook_documents_of touch_notebook_fields)
  have g0: "get_notebook nb w = (200, NotebookBody n (notebook_documents_of w nb))"
    using assms(1) by (simp add: get_notebook_def)
  have g: "get_notebook nb ?w2
             = (200, NotebookBody (n\<lparr>nb_updated_at := now\<rparr>) (notebook_documents_of ?w2 nb))"
    using f by (simp add: get_notebook_def)
  show ?thesis
    using g0 del g absent assms(3) by simp
qed

text \<open>The theorem on the first notebook of the example store, removing document 3 at time 50.\<close>

theorem remove_document_then_fetch_witness:
  "find_notebook shelf_world 1 = Some \<lparr>nb_id = 1, nb_title = ''Trip'', nb_content = Some ''My notes'',
       nb_created_at = 40, nb_updated_at = 40\<rparr>
   \<and> (1, 3) \<in> set (notebook_documents shelf_world)
   \<and> (40::int) < 50
   \<and> fst (delete_notebook_document 50 1 3 shelf_world) = (204, NoBody)
   \<and> get_notebook 1 (snd (delete_notebook_document 50 1 3 shelf_world))
       = (200, NotebookBody \<lparr>nb_id = 1, nb_title = ''Trip'', nb_content = Some ''My notes'',
                 nb_created_at = 40, nb_updated_at = 50\<rparr>
               [\<lparr>doc_id = 2, doc_title = ''Fox'', doc_content = Some ''The quick brown fox'',
                 doc_embedding = Some [1/2], doc_created_at = 20, doc_file_path = None,
                 doc_source_url = None, doc_mime_type = Some ''text/plain''\<rparr>,
                \<lparr>doc_id = 1, doc_title = ''France'', doc_content = Some ''Paris is the capital of France.'',
                 doc_embedding = Some [1], doc_created_at = 10, doc_file_path = None,
                 doc_source_url = None, doc_mime_type = Some ''text/plain''\<rparr>])"
  using remove_document_then_fetch [of shelf_world 1
      "\<lparr>nb_id = 1, nb_title = ''Trip'', nb_content = Some ''My notes'',
        nb_created_at = 40, nb_updated_at = 40\<rparr>" 3 50]
  by (simp add: shelf_world_def find_notebook_def get_notebook_def delete_notebook_document_def
      touch_notebook_def notebook_documents_of_def Let_def)

section \<open>Notebooks: adding a document twice\<close>

text \<open>
  C9. When the pair (notebook id, document id) is already in the membership table, adding
  it again answers 409 and leaves the state, hence the notebook's \<^verbatim>\<open>updated_at\<close>, as it
  was (document ids are positive: the handler treats 0 as a missing id). Conversely the
  notebooks table changes only in a request that answers 201 after it has inserted the
  membership.
\<close>

theorem add_document_conflict:
  "((nb, d) \<in> set (notebook_documents w) \<and> 0 < d \<longrightarrow>
      post_notebook_documents now nb (Some d) w
        = ((409, ErrorBody ''Document is already in this notebook''), w))
   \<and> (notebooks (snd (post_notebook_documents now nb d_opt w)) \<noteq> notebooks w \<longrightarrow>
        (\<exists>d'. d_opt = Some d' \<and> (nb, d') \<notin> set (notebook_documents w)
           \<and> fst (post_notebook_documents now nb d_opt w)
               = (201, MessageBody ''Document added to notebook successfully'')
           \<and> notebook_documents (snd (post_notebook_documents now nb d_opt w))
               = notebook_documents w @ [(nb, d')]))"
proof (intro conjI impI)
  assume "(nb, d) \<in> set (notebook_documents w) \<and> 0 < d"
  then show "post_notebook_documents now nb (Some d) w
               = ((409, ErrorBody ''Document is already in this notebook''), w)"
    by (simp add: post_notebook_documents_def)
next
  assume changed: "notebooks (snd (post_notebook_documents now nb d_opt w)) \<noteq> notebooks w"
  show "\<exists>d'. d_opt = Some d' \<and> (nb, d') \<notin> set (notebook_documents w)
           \<and> fst (post_notebook_documents now nb d_opt w)
               = (201, MessageBody ''Document added to notebook successfully'')
           \<and> notebook_documents (snd (post_notebook_documents now nb d_opt w))
               = notebook_documents w @ [(nb, d')]"
  proof (cases d_opt)
    case None
    with changed show ?thesis
      by (simp add: post_notebook_documents_def)
  next
    case (Some d')
    with changed have inserted: "d' \<noteq> 0" "(nb, d') \<notin> set (notebook_documents w)"
      "nb \<in> nb_id ` set (notebooks w)" "d' \<in> doc_id ` set (documents w)"
      by (auto simp: post_notebook_documents_def split: if_splits)
    with Some show ?thesis
      by (simp add: post_notebook_documents_def Let_def touch_notebook_def)
  qed
qed

text \<open>
  The theorem on the example store: document 1 is already in notebook 1; adding it to
  notebook 2 inserts the pair and touches notebook 2.
\<close>

theorem add_document_conflict_witness:
  "(1, 1) \<in> set (notebook_documents shelf_world) \<and> (0::nat) < 1
   \<and> post_notebook_documents 50 1 (Some 1) shelf_world
       = ((409, ErrorBody ''Document is already in this notebook''), shelf_world)
   \<and> notebooks (snd (post_notebook_documents 50 2 (Some 1) shelf_world)) \<noteq> notebooks shelf_world
   \<and> post_notebook_documents 50 2 (Some 1) shelf_world
       = ((201, MessageBody ''Document added to notebook successfully''),
          shelf_world\<lparr>notebooks := [\<lparr>nb_id = 1, nb_title = ''Trip'', nb_content = Some ''My notes'',
                                     nb_created_at = 40, nb_updated_at = 40\<rparr>,
                                    \<lparr>nb_id = 2, nb_title = ''Later'', nb_content = None,
                                     nb_created_at = 41, nb_updated_at = 50\<rparr>],
                      notebook_documents := [(1, 1), (1, 2), (1, 3), (2, 1)]\<rparr>)"
  using add_document_conflict [where nb = 1 and d = 1 and w = shelf_world and now = 50]
    add_document_conflict [where nb = 2 and w = shelf_world and now = 50 and d_opt = "Some 1"]
  by (simp add: shelf_world_def post_notebook_documents_def touch_notebook_def Let_def)

section \<open>Question answering: documents without embedding\<close>

text \<open>
  C10. Every document retrieved for a question has an embedding and is a member of the
  notebook. The rows retrieved, and so the context compiled from them, are the same as on
  the store from which every document without embedding has been removed: such a
  document contributes nothing.
\<close>

theorem null_embedding_never_retrieved:
  "(\<forall>d \<in> set (qa_retrieved env v nb w).
       doc_embedding d \<noteq> None \<and> d \<in> set (documents w)
       \<and> (nb, doc_id d) \<in> set (notebook_documents w))
   \<and> qa_rows env v nb (w\<lparr>documents := [d \<leftarrow> documents w. doc_embedding d \<noteq> None]\<rparr>)
       = qa_rows env v nb w
   \<and> compile_context env notes
        (qa_rows env v nb (w\<lparr>documents := [d \<leftarrow> documents w. doc_embedding d \<noteq> None]\<rparr>))
       = compile_context env notes (qa_rows env v nb w)"
proof -
  have "\<forall>d \<in> set (qa_retrieved env v nb w).
       doc_embedding d \<noteq> None \<and> d \<in> set (documents w)
       \<and> (nb, doc_id d) \<in> set (notebook_documents w)"
    using set_qa_retrieved [of env v nb w] by (auto simp: set_qa_candidates)
  moreover have "qa_rows env v nb (w\<lparr>documents := [d \<leftarrow> documents w. doc_embedding d \<noteq> None]\<rparr>)
       = qa_rows env v nb w"
    by (simp only: qa_rows_def qa_retrieved_def qa_candidates_without_null)
  ultimately show ?thesis by simp
qed

text \<open>
  The theorem on the example store: document 3 is a member of notebook 1 without
  embedding, and documents 1 and 2 are retrieved.
\<close>

theorem null_embedding_never_retrieved_witness:
  "(\<lparr>doc_id = 3, doc_title = ''Draft'', doc_content = Some ''Not embedded'',
          doc_embedding = None, doc_created_at = 30, doc_file_path = None,
          doc_source_url = None, doc_mime_type = Some ''text/plain''\<rparr>) \<in> set (documents shelf_world)
   \<and> (1, 3) \<in> set (notebook_documents shelf_world)
   \<and> map doc_id (qa_retrieved example_env [1] 1 shelf_world) = [1, 2]
   \<and> map doc_embedding (qa_retrieved example_env [1] 1 shelf_world) = [Some [1], Some [1/2]]"
  using null_embedding_never_retrieved [of example_env "[1]" 1 shelf_world]
  by (simp add: qa_retrieved_def qa_candidates_def qa_distance_def shelf_world_def
      example_env_fields example_distance_def)

section \<open>Question answering: the context\<close>



section \<open>Question answering: rejections\<close>

text \<open>
  C3, as the source has it. An empty or missing question is rejected with 400 before
  anything else happens: the state is unchanged and no embedding request is sent. When
  the question is not empty and the notebook does not exist, the question is embedded
  first (one request is sent to the embeddings endpoint); the reply is 404
  \<^verbatim>\<open>Notebook not found\<close> when the embedding succeeds and 500 when it fails.
\<close>

theorem query_rejections:
  "(falsy question_opt \<longrightarrow>
      post_notebook_query env nb question_opt w = ((400, ErrorBody ''Question is required''), w))
   \<and> (\<not> falsy question_opt \<and> find_notebook w nb = None \<longrightarrow>
        new_embedding_requests w (snd (post_notebook_query env nb question_opt w))
          = [replace_newlines (the question_opt)]
        \<and> fst (post_notebook_query env nb question_opt w)
            = (if fst (getEmbedding env (the question_opt) w) = None
               then (500, ErrorBody ''Failed to generate embedding for the question.'')
               else (404, ErrorBody ''Notebook not found'')))"
proof (intro conjI impI)
  assume "falsy question_opt"
  then show "post_notebook_query env nb question_opt w = ((400, ErrorBody ''Question is required''), w)"
    by (simp add: post_notebook_query_def)
next
  assume a: "\<not> falsy question_opt \<and> find_notebook w nb = None"
  let ?q = "the question_opt"
  from a have ne: "?q \<noteq> []"
    by (auto simp: falsy_def split: option.splits)
  obtain r w1 where g: "getEmbedding env ?q w = (r, w1)"
    by (cases "getEmbedding env ?q w")
  have req: "embedding_requests w1 = embedding_requests w @ [replace_newlines ?q]"
    using getEmbedding_requests [OF g] ne by simp
  have "notebooks w1 = notebooks w"
    using g by (rule getEmbedding_tables)
  with a have f: "find_notebook w1 nb = None"
    by (simp add: find_notebook_def)
  have p: "post_notebook_query env nb question_opt w
             = (if r = None
                then ((500, ErrorBody ''Failed to generate embedding for the question.''), w1)
                else ((404, ErrorBody ''Notebook not found''), w1))"
    using a g f by (cases r) (simp_all add: post_notebook_query_def Let_def)
  show "new_embedding_requests w (snd (post_notebook_query env nb question_opt w))
          = [replace_newlines ?q]"
    using req by (simp add: p new_embedding_requests_def)
  show "fst (post_notebook_query env nb question_opt w)
            = (if fst (getEmbedding env ?q w) = None
               then (500, ErrorBody ''Failed to generate embedding for the question.'')
               else (404, ErrorBody ''Notebook not found''))"
    by (simp add: p g)
qed

text \<open>The theorem on the example store, which has no notebook 7.\<close>

theorem query_rejections_witness:
  "falsy (Some [])
   \<and> post_notebook_query example_env 7 (Some []) shelf_world
       = ((400, ErrorBody ''Question is required''), shelf_world)
   \<and> \<not> falsy (Some ''What is the capital of France?'')
   \<and> find_notebook shelf_world 7 = None
   \<and> new_embedding_requests shelf_world
        (snd (post_notebook_query example_env 7 (Some ''What is the capital of France?'') shelf_world))
       = [''What is the capital of France?'']
   \<and> fst (post_notebook_query example_env 7 (Some ''What is the capital of France?'') shelf_world)
       = (404, ErrorBody ''Notebook not found'')"
  using query_rejections [of "Some []" example_env 7 shelf_world]
    query_rejections [of "Some ''What is the capital of France?''" example_env 7 shelf_world]
  by (simp add: falsy_def getEmbedding_def replace_newlines_def find_notebook_def
      shelf_world_def example_env_fields Let_def)

text \<open>
  A question on a notebook that does not exist is embedded before the notebook is looked
  up: a request reaches the embeddings endpoint, and when that endpoint is down the error
  is the embedding failure, not the missing notebook.
\<close>

theorem query_embeds_before_lookup_counterexample:
  "find_notebook shelf_world 7 = None
   \<and> post_notebook_query example_env 7 (Some ''What is the capital of France?'') shelf_world
       = ((404, ErrorBody ''Notebook not found''),
          shelf_world\<lparr>embedding_requests := [''What is the capital of France?'']\<rparr>)
   \<and> post_notebook_query failing_env 7 (Some ''What is the capital of France?'') shelf_world
       = ((500, ErrorBody ''Failed to generate embedding for the question.''),
          shelf_world\<lparr>embedding_requests := [''What is the capital of France?'']\<rparr>)
   \<and> embedding_requests shelf_world = []"
  by (simp add: post_notebook_query_def falsy_def getEmbedding_def replace_newlines_def
      find_notebook_def shelf_world_def example_env_fields failing_env_fields Let_def)

end
